theory Spec2Isabelle
  imports Complex_Main
begin

section \<open>JavaScript strings\<close>

text \<open>
  A JavaScript string is modelled as a HOL \<^typ>\<open>string\<close>: a list of code units, restricted
  to the code units below 256 (Latin-1), on which \<^verbatim>\<open>toLowerCase\<close> and the
  case-insensitive matching of the regular expressions used here are closed.
  White space (\<^verbatim>\<open>\s\<close> and \<^verbatim>\<open>trim\<close>) is then TAB, LF, VT, FF, CR, SPACE and NBSP,
  and a line terminator is LF or CR.
\<close>

definition ws_chars :: string where
  "ws_chars = [CHR 0x09, CHR 0x0A, CHR 0x0B, CHR 0x0C, CHR 0x0D, CHR 0x20, CHR 0xA0]"

definition is_ws :: "char \<Rightarrow> bool" where
  "is_ws c = (c \<in> set ws_chars)"

definition line_terminators :: string where
  "line_terminators = [CHR 0x0A, CHR 0x0D]"

definition trim :: "string \<Rightarrow> string" where
  "trim s = rev (dropWhile is_ws (rev (dropWhile is_ws s)))"

definition upper_letters :: string where
  "upper_letters = ''ABCDEFGHIJKLMNOPQRSTUVWXYZ''"

definition lower_letters :: string where
  "lower_letters = ''abcdefghijklmnopqrstuvwxyz''"

definition digit_chars :: string where
  "digit_chars = ''0123456789''"

definition lower_char :: "char \<Rightarrow> char" where
  "lower_char c =
     (let n = (of_char c :: nat)
      in if (65 \<le> n \<and> n \<le> 90) \<or> (192 \<le> n \<and> n \<le> 222 \<and> n \<noteq> 215)
         then char_of (n + 32) else c)"

text \<open>\<^verbatim>\<open>toUpperCase\<close> is only ever applied to a letter matched by \<^verbatim>\<open>[A-D]\<close> (with
  flag i); on ASCII letters it is the following.\<close>

definition upper_char :: "char \<Rightarrow> char" where
  "upper_char c =
     (let n = (of_char c :: nat)
      in if 97 \<le> n \<and> n \<le> 122 then char_of (n - 32) else c)"

definition toLowerCase :: "string \<Rightarrow> string" where
  "toLowerCase s = map lower_char s"

definition toUpperCase :: "string \<Rightarrow> string" where
  "toUpperCase s = map upper_char s"

fun starts_with :: "string \<Rightarrow> string \<Rightarrow> bool" where
  "starts_with [] s = True"
| "starts_with (p # ps) [] = False"
| "starts_with (p # ps) (c # cs) = (p = c \<and> starts_with ps cs)"

text \<open>\<^verbatim>\<open>s.includes(sub)\<close> and \<^verbatim>\<open>s.indexOf(sub)\<close> (the latter is \<open>-1\<close> when absent).\<close>

fun str_includes :: "string \<Rightarrow> string \<Rightarrow> bool" where
  "str_includes [] sub = (sub = [])"
| "str_includes (c # cs) sub = (starts_with sub (c # cs) \<or> str_includes cs sub)"

fun indexOf_from :: "int \<Rightarrow> string \<Rightarrow> string \<Rightarrow> int" where
  "indexOf_from i [] sub = (if sub = [] then i else - 1)"
| "indexOf_from i (c # cs) sub =
     (if starts_with sub (c # cs) then i else indexOf_from (i + 1) cs sub)"

definition indexOf :: "string \<Rightarrow> string \<Rightarrow> int" where
  "indexOf s sub = indexOf_from 0 s sub"

text \<open>\<^verbatim>\<open>s.split('\n')\<close>: splitting at one separator character.\<close>

fun split_char :: "char \<Rightarrow> string \<Rightarrow> string \<Rightarrow> string list" where
  "split_char sep acc [] = [rev acc]"
| "split_char sep acc (c # cs) =
     (if c = sep then rev acc # split_char sep [] cs else split_char sep (c # acc) cs)"

definition split_lines :: "string \<Rightarrow> string list" where
  "split_lines s = split_char CHR 0x0A [] s"

fun join :: "string \<Rightarrow> string list \<Rightarrow> string" where
  "join sep [] = []"
| "join sep [x] = x"
| "join sep (x # y # ys) = x @ sep @ join sep (y # ys)"

text \<open>\<^verbatim>\<open>xs.findIndex(p)\<close>: the first index whose element satisfies \<open>p\<close>, or \<open>-1\<close>.\<close>

fun findIndex_from :: "int \<Rightarrow> ('a \<Rightarrow> bool) \<Rightarrow> 'a list \<Rightarrow> int" where
  "findIndex_from i p [] = - 1"
| "findIndex_from i p (x # xs) = (if p x then i else findIndex_from (i + 1) p xs)"

definition findIndex :: "('a \<Rightarrow> bool) \<Rightarrow> 'a list \<Rightarrow> int" where
  "findIndex p xs = findIndex_from 0 p xs"

section \<open>Regular expressions\<close>

text \<open>
  The regular expressions of the source are values of \<open>rx\<close>, matched by a backtracking
  matcher in continuation-passing style, as ECMAScript specifies it: alternatives are
  tried left to right, a greedy quantifier tries one more iteration before it tries the
  continuation, a lazy one the other way round, and an iteration of \<^verbatim>\<open>*\<close> that consumes
  nothing is rejected. A matching state is the code unit before the current position
  (for \<^verbatim>\<open>^\<close> and \<^verbatim>\<open>\b\<close>), the input that remains, and the captures made so far, the
  latest first. No pattern of the source has a group inside a quantifier or a
  back-reference, so the clearing of the captures at each iteration is left out. The flag
  i is in the pattern itself (\<open>ch_i\<close>, \<open>lit_i\<close>, both cases in a class), and so is the flag s
  (\<open>any_char\<close> for the dot) and the flag m (\<open>EolM\<close> for the dollar).
\<close>

datatype mstate = MState (prev: "char option") (rest: string) (caps: "(nat \<times> string) list")

datatype rx =
    Eps
  | Chr "char \<Rightarrow> bool"
  | Seq rx rx
  | Alt rx rx
  | Star rx
  | StarL rx
  | Grp nat rx
  | Ahead rx
  | NAhead rx
  | Bol
  | Eol
  | EolM
  | WordB

type_synonym cont = "mstate \<Rightarrow> mstate option"

text \<open>The quantifiers recurse on a copy of the remaining input: every accepted iteration
  consumes at least one code unit, so the copy is never used up before the input is.\<close>

primrec star_g :: "(cont \<Rightarrow> cont) \<Rightarrow> string \<Rightarrow> cont \<Rightarrow> cont" where
  "star_g ma [] k s = k s"
| "star_g ma (c # fuel) k s =
     (case ma (\<lambda>s'. if length (rest s') < length (rest s) then star_g ma fuel k s' else None) s of
        Some r \<Rightarrow> Some r
      | None \<Rightarrow> k s)"

primrec star_l :: "(cont \<Rightarrow> cont) \<Rightarrow> string \<Rightarrow> cont \<Rightarrow> cont" where
  "star_l ma [] k s = k s"
| "star_l ma (c # fuel) k s =
     (case k s of
        Some r \<Rightarrow> Some r
      | None \<Rightarrow>
          ma (\<lambda>s'. if length (rest s') < length (rest s) then star_l ma fuel k s' else None) s)"

definition is_word :: "char \<Rightarrow> bool" where
  "is_word c = (c \<in> set (lower_letters @ upper_letters @ digit_chars @ ''_''))"

primrec rx_m :: "rx \<Rightarrow> cont \<Rightarrow> cont" where
  "rx_m Eps k s = k s"
| "rx_m (Chr p) k s =
     (case rest s of
        [] \<Rightarrow> None
      | c # cs \<Rightarrow> if p c then k (MState (Some c) cs (caps s)) else None)"
| "rx_m (Seq a b) k s = rx_m a (rx_m b k) s"
| "rx_m (Alt a b) k s = (case rx_m a k s of Some r \<Rightarrow> Some r | None \<Rightarrow> rx_m b k s)"
| "rx_m (Star a) k s = star_g (rx_m a) (rest s) k s"
| "rx_m (StarL a) k s = star_l (rx_m a) (rest s) k s"
| "rx_m (Grp n a) k s =
     rx_m a (\<lambda>s'. k (MState (prev s') (rest s')
        ((n, take (length (rest s) - length (rest s')) (rest s)) # caps s'))) s"
| "rx_m (Ahead a) k s =
     (case rx_m a Some s of
        None \<Rightarrow> None
      | Some s' \<Rightarrow> k (MState (prev s) (rest s) (caps s')))"
| "rx_m (NAhead a) k s = (case rx_m a Some s of None \<Rightarrow> k s | Some s' \<Rightarrow> None)"
| "rx_m Bol k s = (if prev s = None then k s else None)"
| "rx_m Eol k s = (if rest s = [] then k s else None)"
| "rx_m EolM k s =
     (case rest s of
        [] \<Rightarrow> k s
      | c # cs \<Rightarrow> if c \<in> set line_terminators then k s else None)"
| "rx_m WordB k s =
     (let a = (case prev s of None \<Rightarrow> False | Some c \<Rightarrow> is_word c);
          b = (case rest s of [] \<Rightarrow> False | c # cs \<Rightarrow> is_word c)
      in if a \<noteq> b then k s else None)"

subsection \<open>Notation of the patterns\<close>

definition seqs :: "rx list \<Rightarrow> rx" where
  "seqs rs = foldr Seq rs Eps"

definition alts :: "rx \<Rightarrow> rx list \<Rightarrow> rx" where
  "alts r rs = foldl Alt r rs"

definition ch :: "char \<Rightarrow> rx" where
  "ch c = Chr (\<lambda>x. x = c)"

text \<open>Under flag i a letter of the pattern matches both of its cases: the pattern
  characters are ASCII, and no other code unit below 256 is case-folded to an ASCII letter.\<close>

definition ch_i :: "char \<Rightarrow> rx" where
  "ch_i c = (let u = upper_char c; l = lower_char c in Chr (\<lambda>x. x = u \<or> x = l))"

definition lit :: "string \<Rightarrow> rx" where
  "lit s = seqs (map ch s)"

definition lit_i :: "string \<Rightarrow> rx" where
  "lit_i s = seqs (map ch_i s)"

definition cls :: "string \<Rightarrow> rx" where
  "cls s = Chr (\<lambda>x. x \<in> set s)"

definition ncls :: "string \<Rightarrow> rx" where
  "ncls s = Chr (\<lambda>x. x \<notin> set s)"

definition any_char :: rx where
  "any_char = Chr (\<lambda>x. True)"

definition dot :: rx where
  "dot = ncls line_terminators"

definition ws :: rx where
  "ws = cls ws_chars"

definition digit :: rx where
  "digit = cls digit_chars"

definition Opt :: "rx \<Rightarrow> rx" where
  "Opt r = Alt r Eps"

definition Plus :: "rx \<Rightarrow> rx" where
  "Plus r = Seq r (Star r)"

definition PlusL :: "rx \<Rightarrow> rx" where
  "PlusL r = Seq r (StarL r)"

text \<open>\<^verbatim>\<open>r{1,3}\<close>\<close>

definition Rep13 :: "rx \<Rightarrow> rx" where
  "Rep13 r = Seq r (Opt (Seq r (Opt r)))"

subsection \<open>The operations of RegExp and String\<close>

text \<open>A match: the input before it, the matched text, the captures, and the input after it
  (with the code unit before that position).\<close>

datatype rmatch = RMatch (pre: string) (whole: string) (groups: "(nat \<times> string) list")
  (post_prev: "char option") (post: string)

definition match_here :: "rx \<Rightarrow> string \<Rightarrow> char option \<Rightarrow> string \<Rightarrow> rmatch option" where
  "match_here r acc p s =
     (case rx_m r Some (MState p s []) of
        None \<Rightarrow> None
      | Some e \<Rightarrow>
          Some (RMatch (rev acc) (take (length s - length (rest e)) s) (caps e) (prev e) (rest e)))"

text \<open>The leftmost match at or after the current position.\<close>

fun exec_from :: "rx \<Rightarrow> string \<Rightarrow> char option \<Rightarrow> string \<Rightarrow> rmatch option" where
  "exec_from r acc p [] = match_here r acc p []"
| "exec_from r acc p (c # cs) =
     (case match_here r acc p (c # cs) of
        Some mt \<Rightarrow> Some mt
      | None \<Rightarrow> exec_from r (c # acc) (Some c) cs)"

text \<open>\<^verbatim>\<open>s.match(r)\<close> for a pattern without flag g, \<^verbatim>\<open>r.test(s)\<close>, \<^verbatim>\<open>s.search(r)\<close>, and
  \<^verbatim>\<open>m[n]\<close> (\<open>None\<close> is \<^verbatim>\<open>undefined\<close>).\<close>

definition rx_match :: "rx \<Rightarrow> string \<Rightarrow> rmatch option" where
  "rx_match r s = exec_from r [] None s"

definition rx_test :: "rx \<Rightarrow> string \<Rightarrow> bool" where
  "rx_test r s = (rx_match r s \<noteq> None)"

definition rx_search :: "rx \<Rightarrow> string \<Rightarrow> int" where
  "rx_search r s = (case rx_match r s of None \<Rightarrow> - 1 | Some mt \<Rightarrow> int (length (pre mt)))"

definition group :: "rmatch \<Rightarrow> nat \<Rightarrow> string option" where
  "group mt n = map_of (groups mt) n"

text \<open>The code unit that was stepped over after an empty match belongs to the text before
  the next match.\<close>

fun skipped :: "char \<Rightarrow> rmatch list \<Rightarrow> rmatch list" where
  "skipped c [] = []"
| "skipped c (mt # ms) = RMatch (c # pre mt) (whole mt) (groups mt) (post_prev mt) (post mt) # ms"

text \<open>All matches of a pattern with flag g, as \<^verbatim>\<open>s.match(r)\<close>, \<^verbatim>\<open>s.replace(r, ...)\<close> and a
  loop over \<^verbatim>\<open>r.exec(s)\<close> find them: the search resumes where the last match ended, and
  one code unit further after an empty match (\<^verbatim>\<open>match\<close> and \<^verbatim>\<open>replace\<close> do that; a loop
  over \<^verbatim>\<open>exec\<close> would not leave an empty match, see \<open>exec_loop\<close>). The text before each
  match is counted from the end of the previous one.\<close>

function match_all_from :: "rx \<Rightarrow> char option \<Rightarrow> string \<Rightarrow> rmatch list" where
  "match_all_from r p s =
     (case exec_from r [] p s of
        None \<Rightarrow> []
      | Some mt \<Rightarrow>
          if whole mt \<noteq> [] \<and> length (post mt) < length s
          then mt # match_all_from r (post_prev mt) (post mt)
          else (case post mt of
                  [] \<Rightarrow> [mt]
                | c # cs \<Rightarrow>
                    if length cs < length s
                    then mt # skipped c (match_all_from r (Some c) cs)
                    else [mt]))"
  by pat_completeness auto
termination
  by (relation "measure (\<lambda>(r, p, s). length s)") auto

declare match_all_from.simps [simp del]

definition match_all :: "rx \<Rightarrow> string \<Rightarrow> rmatch list" where
  "match_all r s = match_all_from r None s"

text \<open>\<^verbatim>\<open>while ((match = r.exec(s)) !== null) ...\<close> visits the same matches as long as none is
  empty; after an empty match \<^verbatim>\<open>lastIndex\<close> stays where it is and the loop never ends,
  which is the value \<open>None\<close>.\<close>

definition exec_loop :: "rx \<Rightarrow> string \<Rightarrow> rmatch list option" where
  "exec_loop r s =
     (let ms = match_all r s in if \<exists>mt \<in> set ms. whole mt = [] then None else Some ms)"

text \<open>\<^verbatim>\<open>s.replace(r, f)\<close> with flag g, and without it (the first match only).\<close>

fun replace_matches :: "(rmatch \<Rightarrow> string) \<Rightarrow> rmatch list \<Rightarrow> string \<Rightarrow> string" where
  "replace_matches f [] s = s"
| "replace_matches f [mt] s = pre mt @ f mt @ post mt"
| "replace_matches f (mt # mt' # ms) s = pre mt @ f mt @ replace_matches f (mt' # ms) s"

definition replace_all :: "rx \<Rightarrow> (rmatch \<Rightarrow> string) \<Rightarrow> string \<Rightarrow> string" where
  "replace_all r f s = replace_matches f (match_all r s) s"

definition replace_first :: "rx \<Rightarrow> (rmatch \<Rightarrow> string) \<Rightarrow> string \<Rightarrow> string" where
  "replace_first r f s =
     (case rx_match r s of None \<Rightarrow> s | Some mt \<Rightarrow> pre mt @ f mt @ post mt)"

text \<open>\<^verbatim>\<open>s.split(r)\<close> for a pattern without captures: at each position \<open>q\<close> the pattern is
  matched there; a match that ends where the last piece ended is skipped, any other
  match ends a piece; an empty input gives no piece when the pattern matches it and the
  input itself otherwise.\<close>

function split_from :: "rx \<Rightarrow> string \<Rightarrow> char option \<Rightarrow> string \<Rightarrow> string list" where
  "split_from r acc p [] = [rev acc]"
| "split_from r acc p (c # cs) =
     (case rx_m r Some (MState p (c # cs) []) of
        None \<Rightarrow> split_from r (c # acc) (Some c) cs
      | Some e \<Rightarrow>
          if length (rest e) < length (c # cs)
          then rev acc # split_from r [] (prev e) (rest e)
          else if acc = [] then split_from r [c] (Some c) cs
          else rev acc # split_from r [c] (Some c) cs)"
  by pat_completeness auto
termination
  by (relation "measure (\<lambda>(r, acc, p, s). length s)") auto

definition rx_split :: "rx \<Rightarrow> string \<Rightarrow> string list" where
  "rx_split r s =
     (if s = [] then (if rx_m r Some (MState None [] []) = None then [[]] else [])
      else split_from r [] None s)"

section \<open>Exceptions\<close>

text \<open>What the code can throw: the \<^verbatim>\<open>SyntaxError\<close> of \<^verbatim>\<open>JSON.parse\<close>, the \<^verbatim>\<open>TypeError\<close> of a
  method call on a value that has no such method, and \<^verbatim>\<open>new Error(prefix + e.message)\<close>,
  which keeps the prefix and the error it wraps.\<close>

datatype js_error = SyntaxError | TypeError | WrappedError string js_error

definition bind_e :: "'e + 'a \<Rightarrow> ('a \<Rightarrow> 'e + 'b) \<Rightarrow> 'e + 'b" where
  "bind_e x f = (case x of Inl e \<Rightarrow> Inl e | Inr v \<Rightarrow> f v)"

definition try_catch :: "'e + 'a \<Rightarrow> ('e \<Rightarrow> 'f + 'a) \<Rightarrow> 'f + 'a" where
  "try_catch body handler = (case body of Inl e \<Rightarrow> handler e | Inr v \<Rightarrow> Inr v)"

text \<open>A method call on \<^verbatim>\<open>m[n]\<close> throws when the group is \<^verbatim>\<open>undefined\<close>.\<close>

definition must :: "'a option \<Rightarrow> js_error + 'a" where
  "must x = (case x of None \<Rightarrow> Inl TypeError | Some v \<Rightarrow> Inr v)"

fun sequence_e :: "('e + 'a) list \<Rightarrow> 'e + 'a list" where
  "sequence_e [] = Inr []"
| "sequence_e (x # xs) =
     (case x of
        Inl e \<Rightarrow> Inl e
      | Inr v \<Rightarrow> (case sequence_e xs of Inl e \<Rightarrow> Inl e | Inr vs \<Rightarrow> Inr (v # vs)))"

section \<open>JSON\<close>

text \<open>The values \<^verbatim>\<open>JSON.parse\<close> returns. A number is the exact rational its literal
  denotes (rounding to binary64 is not modelled); an object is the list of its properties
  in the order of their creation.\<close>

datatype json =
    JNull
  | JBool bool
  | JNum rat
  | JStr string
  | JArr "json list"
  | JObj "(string \<times> json) list"

fun obj_set :: "(string \<times> 'v) list \<Rightarrow> string \<Rightarrow> 'v \<Rightarrow> (string \<times> 'v) list" where
  "obj_set [] k v = [(k, v)]"
| "obj_set ((k', v') # kvs) k v = (if k' = k then (k, v) # kvs else (k', v') # obj_set kvs k v)"

definition json_ws :: string where
  "json_ws = [CHR 0x20, CHR 0x09, CHR 0x0A, CHR 0x0D]"

definition skip_ws :: "string \<Rightarrow> string" where
  "skip_ws s = dropWhile (\<lambda>c. c \<in> set json_ws) s"

definition digit_val :: "char \<Rightarrow> nat" where
  "digit_val c = of_char c - 48"

definition digits_val :: "string \<Rightarrow> nat" where
  "digits_val ds = foldl (\<lambda>n c. 10 * n + digit_val c) 0 ds"

definition hex_val :: "char \<Rightarrow> nat option" where
  "hex_val c =
     (let n = (of_char c :: nat)
      in if 48 \<le> n \<and> n \<le> 57 then Some (n - 48)
         else if 65 \<le> n \<and> n \<le> 70 then Some (n - 55)
         else if 97 \<le> n \<and> n \<le> 102 then Some (n - 87)
         else None)"

definition simple_escape :: "char \<Rightarrow> char option" where
  "simple_escape e =
     (if e = CHR 0x22 then Some (CHR 0x22)
      else if e = CHR 0x5C then Some (CHR 0x5C)
      else if e = CHR ''/'' then Some (CHR ''/'')
      else if e = CHR ''b'' then Some (CHR 0x08)
      else if e = CHR ''f'' then Some (CHR 0x0C)
      else if e = CHR ''n'' then Some (CHR 0x0A)
      else if e = CHR ''r'' then Some (CHR 0x0D)
      else if e = CHR ''t'' then Some (CHR 0x09)
      else None)"

text \<open>The characters of a string literal after its opening quote, up to the closing one.
  An escape \<^verbatim>\<open>\uXXXX\<close> of a code unit above 255 denotes a string outside this model and
  is refused.\<close>

fun parse_string_body :: "string \<Rightarrow> string \<Rightarrow> (string \<times> string) option" where
  "parse_string_body acc [] = None"
| "parse_string_body acc [c] = (if c = CHR 0x22 then Some (rev acc, []) else None)"
| "parse_string_body acc (c # e # cs) =
     (if c = CHR 0x22 then Some (rev acc, e # cs)
      else if c = CHR 0x5C then
        (if e = CHR ''u'' then
           (case cs of
              h1 # h2 # h3 # h4 # cs' \<Rightarrow>
                (case (hex_val h1, hex_val h2, hex_val h3, hex_val h4) of
                   (Some a, Some b, Some c', Some d) \<Rightarrow>
                     (let v = ((a * 16 + b) * 16 + c') * 16 + d
                      in if v < 256 then parse_string_body (char_of v # acc) cs' else None)
                 | _ \<Rightarrow> None)
            | _ \<Rightarrow> None)
         else (case simple_escape e of
                 None \<Rightarrow> None
               | Some x \<Rightarrow> parse_string_body (x # acc) cs))
      else if (of_char c :: nat) < 32 then None
      else parse_string_body (c # acc) (e # cs))"

definition is_digit :: "char \<Rightarrow> bool" where
  "is_digit c = (c \<in> set digit_chars)"

text \<open>A number literal: \<^verbatim>\<open>-? (0 | [1-9][0-9]*) (. [0-9]+)? ([eE] [+-]? [0-9]+)?\<close>.\<close>

definition parse_number :: "string \<Rightarrow> (rat \<times> string) option" where
  "parse_number s =
     (let (neg, s1) = (case s of c # r \<Rightarrow> if c = CHR ''-'' then (True, r) else (False, s) | [] \<Rightarrow> (False, s));
          ip = (case s1 of c # r \<Rightarrow> if c = CHR ''0'' then [c] else takeWhile is_digit s1 | [] \<Rightarrow> []);
          s2 = drop (length ip) s1
      in if ip = [] then None
         else
           (let (fp_ok, fp, s3) =
                  (case s2 of
                     c # r \<Rightarrow>
                       if c = CHR ''.''
                       then (takeWhile is_digit r \<noteq> [], takeWhile is_digit r, dropWhile is_digit r)
                       else (True, [], s2)
                   | [] \<Rightarrow> (True, [], s2));
                (ex_ok, ex_neg, ex, s4) =
                  (case s3 of
                     c # r \<Rightarrow>
                       if c = CHR ''e'' \<or> c = CHR ''E''
                       then
                         (let (sg, r') = (case r of d # r'' \<Rightarrow>
                                  if d = CHR ''-'' then (True, r'')
                                  else if d = CHR ''+'' then (False, r'')
                                  else (False, r) | [] \<Rightarrow> (False, r))
                          in (takeWhile is_digit r' \<noteq> [], sg, takeWhile is_digit r', dropWhile is_digit r'))
                       else (True, False, [], s3)
                   | [] \<Rightarrow> (True, False, [], s3));
                mant = (of_nat (digits_val (ip @ fp)) :: rat) / 10 ^ length fp;
                val = (if ex_neg then mant / 10 ^ digits_val ex else mant * 10 ^ digits_val ex)
            in if fp_ok \<and> ex_ok then Some (if neg then - val else val, s4) else None))"

text \<open>Values, the elements of an array after its opening bracket, and the members of an
  object after its opening brace. A value never ends before it starts, so the tests on
  the lengths always hold; they make the recursion well-founded at sight.\<close>

function parse_value :: "string \<Rightarrow> (json \<times> string) option"
  and parse_elems :: "json list \<Rightarrow> string \<Rightarrow> (json \<times> string) option"
  and parse_members :: "(string \<times> json) list \<Rightarrow> string \<Rightarrow> (json \<times> string) option"
where
  "parse_value s =
     (case skip_ws s of
        [] \<Rightarrow> None
      | c # r \<Rightarrow>
          if length r < length s then
            if c = CHR ''{'' then
              (case skip_ws r of
                 [] \<Rightarrow> None
               | c' # r' \<Rightarrow> if c' = CHR ''}'' then Some (JObj [], r') else parse_members [] r)
            else if c = CHR ''['' then
              (case skip_ws r of
                 [] \<Rightarrow> None
               | c' # r' \<Rightarrow> if c' = CHR '']'' then Some (JArr [], r') else parse_elems [] r)
            else if c = CHR 0x22 then
              (case parse_string_body [] r of
                 None \<Rightarrow> None
               | Some (str, r') \<Rightarrow> Some (JStr str, r'))
            else if starts_with ''true'' (c # r) then Some (JBool True, drop 3 r)
            else if starts_with ''false'' (c # r) then Some (JBool False, drop 4 r)
            else if starts_with ''null'' (c # r) then Some (JNull, drop 3 r)
            else (case parse_number (c # r) of
                    None \<Rightarrow> None
                  | Some (x, r') \<Rightarrow> Some (JNum x, r'))
          else None)"
| "parse_elems acc s =
     (case parse_value s of
        None \<Rightarrow> None
      | Some (v, r) \<Rightarrow>
          (case skip_ws r of
             [] \<Rightarrow> None
           | c # r' \<Rightarrow>
               if c = CHR '']'' then Some (JArr (acc @ [v]), r')
               else if c = CHR '','' \<and> length r' < length s then parse_elems (acc @ [v]) r'
               else None))"
| "parse_members acc s =
     (case skip_ws s of
        [] \<Rightarrow> None
      | q # r0 \<Rightarrow>
          if q = CHR 0x22 then
            (case parse_string_body [] r0 of
               None \<Rightarrow> None
             | Some (key, r1) \<Rightarrow>
                 (case skip_ws r1 of
                    [] \<Rightarrow> None
                  | c # r2 \<Rightarrow>
                      if c = CHR '':'' \<and> length r2 < length s then
                        (case parse_value r2 of
                           None \<Rightarrow> None
                         | Some (v, r3) \<Rightarrow>
                             (case skip_ws r3 of
                                [] \<Rightarrow> None
                              | c' # r4 \<Rightarrow>
                                  if c' = CHR ''}'' then Some (JObj (obj_set acc key v), r4)
                                  else if c' = CHR '','' \<and> length r4 < length s
                                  then parse_members (obj_set acc key v) r4
                                  else None))
                      else None))
          else None)"
  by pat_completeness auto
termination
  by (relation "measure (\<lambda>x. case x of
        Inl s \<Rightarrow> 2 * length s
      | Inr (Inl (acc, s)) \<Rightarrow> 2 * length s + 1
      | Inr (Inr (acc, s)) \<Rightarrow> 2 * length s + 1)") auto

declare parse_value.simps [simp del] parse_elems.simps [simp del] parse_members.simps [simp del]

definition JSON_parse :: "string \<Rightarrow> js_error + json" where
  "JSON_parse s =
     (case parse_value s of
        None \<Rightarrow> Inl SyntaxError
      | Some (v, r) \<Rightarrow> if skip_ws r = [] then Inr v else Inl SyntaxError)"

section \<open>The quiz response parser (server/quiz/parser.ts)\<close>

text \<open>What the code reads from its host: the clock (\<^verbatim>\<open>new Date().toISOString()\<close>) and the
  conversion of a number to a string (\<^verbatim>\<open>String(n)\<close>).\<close>

record host =
  now :: string
  numberToString :: "rat \<Rightarrow> string"

datatype question_type = multiple_choice | open_ended | true_false | fill_in_blank

record QuizQuestion =
  q_id :: rat
  q_type :: question_type
  q_text :: string
  q_options :: "string list option"
  q_correctAnswer :: string
  q_explanation :: "string option"

record Quiz =
  questions :: "QuizQuestion list"
  metadata :: "(string \<times> json) list"
  error :: "string option"

record ParsingOptions =
  validateQuestions :: "bool option"
  requireExplanations :: "bool option"
  normalizeAnswers :: "bool option"

subsection \<open>normalizeQuestionType, normalizeQuestion\<close>

definition normalizeQuestionType :: "string \<Rightarrow> question_type" where
  "normalizeQuestionType type =
     (let lowerType = toLowerCase type
      in if str_includes lowerType ''multiple'' \<or> str_includes lowerType ''choice'' then multiple_choice
         else if str_includes lowerType ''true'' \<and> str_includes lowerType ''false'' then true_false
         else if str_includes lowerType ''fill'' \<and> str_includes lowerType ''blank'' then fill_in_blank
         else open_ended)"

text \<open>\<^verbatim>\<open>!v\<close> on a parsed value, and \<^verbatim>\<open>o.k\<close> on any value (\<open>None\<close> is \<^verbatim>\<open>undefined\<close>).\<close>

fun falsy :: "json \<Rightarrow> bool" where
  "falsy JNull = True"
| "falsy (JBool b) = (\<not> b)"
| "falsy (JNum x) = (x = 0)"
| "falsy (JStr s) = (s = [])"
| "falsy (JArr xs) = False"
| "falsy (JObj kvs) = False"

fun get_prop :: "json \<Rightarrow> string \<Rightarrow> json option" where
  "get_prop (JObj kvs) k = map_of kvs k"
| "get_prop v k = None"

text \<open>The decimal digits of an index.\<close>

function show_nat :: "nat \<Rightarrow> string" where
  "show_nat n = (if n < 10 then [char_of (48 + n)]
     else show_nat (n div 10) @ [char_of (48 + n mod 10)])"
  by pat_completeness auto
termination
  by (relation "measure id") auto

declare show_nat.simps [simp del]

text \<open>\<^verbatim>\<open>String(v)\<close> on a parsed value.\<close>

fun js_String :: "(rat \<Rightarrow> string) \<Rightarrow> json \<Rightarrow> string" where
  "js_String f JNull = ''null''"
| "js_String f (JBool b) = (if b then ''true'' else ''false'')"
| "js_String f (JNum x) = f x"
| "js_String f (JStr s) = s"
| "js_String f (JArr xs) = join '','' (map (\<lambda>x. if x = JNull then [] else js_String f x) xs)"
| "js_String f (JObj kvs) = ''[object Object]''"

text \<open>\<^verbatim>\<open>normalizeQuestionType(question.type || 'open_ended')\<close> throws when \<^verbatim>\<open>question.type\<close>
  is truthy and not a string, since only strings have \<^verbatim>\<open>toLowerCase\<close>.\<close>

definition question_type_of :: "json \<Rightarrow> js_error + question_type" where
  "question_type_of question =
     (case get_prop question ''type'' of
        None \<Rightarrow> Inr (normalizeQuestionType ''open_ended'')
      | Some t \<Rightarrow>
          if falsy t then Inr (normalizeQuestionType ''open_ended'')
          else (case t of
                  JStr ts \<Rightarrow> Inr (normalizeQuestionType ts)
                | _ \<Rightarrow> Inl TypeError))"

text \<open>The object that \<^verbatim>\<open>normalizeQuestion\<close> returns (lines 319 to 332), given the text and
  the type.\<close>

definition normalized_question :: "host \<Rightarrow> json \<Rightarrow> string \<Rightarrow> question_type \<Rightarrow> QuizQuestion" where
  "normalized_question h question txt ty =
     \<lparr>q_id = (case get_prop question ''id'' of Some (JNum n) \<Rightarrow> n | _ \<Rightarrow> 0),
      q_type = ty,
      q_text = trim txt,
      q_options = (case get_prop question ''options'' of
                     Some (JArr opts) \<Rightarrow>
                       if length opts > 0
                       then Some (map (\<lambda>opt. trim (js_String (numberToString h) opt)) opts)
                       else None
                   | _ \<Rightarrow> None),
      q_correctAnswer = (case get_prop question ''correctAnswer'' of
                           Some (JStr a) \<Rightarrow> trim a
                         | _ \<Rightarrow> []),
      q_explanation = (case get_prop question ''explanation'' of
                         Some (JStr e) \<Rightarrow>
                           if length (trim e) > 0 then Some (trim e) else None
                       | _ \<Rightarrow> None)\<rparr>"

text \<open>\<^verbatim>\<open>normalizeQuestion(question: any)\<close>: \<open>Inr None\<close> is \<^verbatim>\<open>null\<close>. An array is an object
  without a \<^verbatim>\<open>text\<close>.\<close>

definition normalizeQuestion :: "host \<Rightarrow> json \<Rightarrow> js_error + QuizQuestion option" where
  "normalizeQuestion h question =
     (case question of
        JObj kvs \<Rightarrow>
          (case get_prop question ''text'' of
             Some (JStr txt) \<Rightarrow>
               if txt = [] then Inr None
               else bind_e (question_type_of question) (\<lambda>ty.
                      Inr (Some (normalized_question h question txt ty)))
           | _ \<Rightarrow> Inr None)
      | _ \<Rightarrow> Inr None)"

subsection \<open>parseJSONResponse\<close>

text \<open>\<^verbatim>\<open>/```(?:json)?\s*({[\s\S]*?})\s*```/\<close>\<close>

definition fence_rx :: rx where
  "fence_rx = seqs [lit ''```'', Opt (lit ''json''), Star ws,
     Grp 1 (seqs [ch CHR ''{'', StarL any_char, ch CHR ''}'']), Star ws, lit ''```'']"

text \<open>\<^verbatim>\<open>/\/\/.*$/gm\<close>\<close>

definition comment_rx :: rx where
  "comment_rx = seqs [lit ''//'', Star dot, EolM]"

text \<open>\<^verbatim>\<open>/,\s*([}\]])/g\<close>\<close>

definition trailing_comma_rx :: rx where
  "trailing_comma_rx = seqs [ch CHR '','', Star ws, Grp 1 (cls ''}]'')]"

definition the_group :: "rmatch \<Rightarrow> nat \<Rightarrow> string" where
  "the_group mt n = (case group mt n of None \<Rightarrow> [] | Some g \<Rightarrow> g)"

text \<open>The clean-up of the fenced text: comments removed, then trailing commas; in a
  replacement string \<^verbatim>\<open>$1\<close> is the first group (empty when it took no part).\<close>

definition cleanJson :: "string \<Rightarrow> string" where
  "cleanJson s =
     replace_all trailing_comma_rx (\<lambda>mt. the_group mt 1) (replace_all comment_rx (\<lambda>mt. []) s)"

text \<open>\<^verbatim>\<open>{ generatedAt: ..., ...v }\<close>: the own enumerable properties of \<open>v\<close> are copied
  over the base: those of an object, the indices of an array or of a string, none of
  anything else.\<close>

definition indexed :: "'a list \<Rightarrow> (string \<times> 'a) list" where
  "indexed xs = zip (map show_nat [0 ..< length xs]) xs"

definition spread_into :: "(string \<times> json) list \<Rightarrow> json option \<Rightarrow> (string \<times> json) list" where
  "spread_into base v =
     (case v of
        Some (JObj kvs) \<Rightarrow> foldl (\<lambda>acc (k, x). obj_set acc k x) base kvs
      | Some (JArr xs) \<Rightarrow> foldl (\<lambda>acc (k, x). obj_set acc k x) base (indexed xs)
      | Some (JStr s) \<Rightarrow> foldl (\<lambda>acc (k, c). obj_set acc k (JStr [c])) base (indexed s)
      | _ \<Rightarrow> base)"

definition fresh_metadata :: "host \<Rightarrow> (string \<times> json) list" where
  "fresh_metadata h = [(''generatedAt'', JStr (now h))]"

text \<open>\<^verbatim>\<open>jsonMatch && jsonMatch[1]\<close>: the text of the first group, when the pattern matches
  and the group is not empty.\<close>

definition fenced_json :: "string \<Rightarrow> string option" where
  "fenced_json response =
     (case rx_match fence_rx response of
        None \<Rightarrow> None
      | Some jsonMatch \<Rightarrow>
          (case group jsonMatch 1 of
             None \<Rightarrow> None
           | Some g \<Rightarrow> if g = [] then None else Some g))"

text \<open>Lines 29 to 43, from the test of the structure on.\<close>

definition quiz_of_parsed :: "host \<Rightarrow> json \<Rightarrow> js_error + Quiz option" where
  "quiz_of_parsed h parsed =
     (if falsy parsed then Inr None
      else
        (case get_prop parsed ''questions'' of
           Some (JArr qs) \<Rightarrow>
             bind_e (sequence_e (map (normalizeQuestion h) qs)) (\<lambda>nqs.
               Inr (Some \<lparr>
                 questions = map the (filter (\<lambda>q. q \<noteq> None) nqs),
                 metadata = spread_into (fresh_metadata h) (get_prop parsed ''metadata''),
                 error = None\<rparr>))
         | _ \<Rightarrow> Inr None))"

text \<open>The body of the \<^verbatim>\<open>try\<close> block, and the function with its \<^verbatim>\<open>catch\<close>, which returns
  \<^verbatim>\<open>null\<close>.\<close>

definition parseJSONResponse_body :: "host \<Rightarrow> string \<Rightarrow> js_error + Quiz option" where
  "parseJSONResponse_body h response =
     (case fenced_json response of
        None \<Rightarrow> Inr None
      | Some g \<Rightarrow> bind_e (JSON_parse (cleanJson g)) (quiz_of_parsed h))"

definition parseJSONResponse :: "host \<Rightarrow> string \<Rightarrow> js_error + Quiz option" where
  "parseJSONResponse h response =
     try_catch (parseJSONResponse_body h response) (\<lambda>e. Inr None)"

subsection \<open>parseMarkdownResponse\<close>

text \<open>\<^verbatim>\<open>/#{1,3}\s*Question\s+\d+/i\<close>\<close>

definition md_split_rx :: rx where
  "md_split_rx = seqs [Rep13 (ch CHR ''#''), Star ws, lit_i ''Question'', Plus ws, Plus digit]"

text \<open>\<^verbatim>\<open>/\*\*Type\*\*:\s*([^\n]+)/i\<close>\<close>

definition md_type_rx :: rx where
  "md_type_rx = seqs [lit_i ''**Type**:'', Star ws, Grp 1 (Plus (ncls [CHR 0x0A]))]"

text \<open>\<^verbatim>\<open>/^[A-D]\.\s+/\<close>\<close>

definition md_option_rx :: rx where
  "md_option_rx = seqs [Bol, cls ''ABCD'', ch CHR ''.'', Plus ws]"

text \<open>\<^verbatim>\<open>/\*\*Correct\s+Answer\*\*:\s*([^\n]+)/i\<close>\<close>

definition md_correct_rx :: rx where
  "md_correct_rx = seqs [lit_i ''**Correct'', Plus ws, lit_i ''Answer**:'', Star ws,
     Grp 1 (Plus (ncls [CHR 0x0A]))]"

text \<open>\<^verbatim>\<open>/^([A-D])/i\<close>\<close>

definition md_letter_rx :: rx where
  "md_letter_rx = seqs [Bol, Grp 1 (cls ''ABCDabcd'')]"

text \<open>\<^verbatim>\<open>/\*\*Explanation\*\*:\s*([^\n].+?)(?=\n\s*(?:#{1,3}|$))/is\<close>\<close>

definition md_explanation_rx :: rx where
  "md_explanation_rx = seqs [lit_i ''**Explanation**:'', Star ws,
     Grp 1 (Seq (ncls [CHR 0x0A]) (PlusL any_char)),
     Ahead (seqs [ch CHR 0x0A, Star ws, Alt (Rep13 (ch CHR ''#'')) Eol])]"

text \<open>\<^verbatim>\<open>s.charCodeAt(0) - 65\<close>; \<open>None\<close> is \<^verbatim>\<open>NaN\<close>, which every comparison refuses.\<close>

definition letter_index :: "string \<Rightarrow> int option" where
  "letter_index s = (case s of [] \<Rightarrow> None | c # cs \<Rightarrow> Some (int (of_char c) - 65))"

text \<open>Lines 115 to 123: the letter of the answer becomes the text of the option.\<close>

definition md_resolve_answer :: "string list \<Rightarrow> string \<Rightarrow> js_error + string" where
  "md_resolve_answer options correctAnswer =
     (if length options > 0 then
        (case rx_match md_letter_rx correctAnswer of
           None \<Rightarrow> Inr correctAnswer
         | Some letterMatch \<Rightarrow>
             bind_e (must (group letterMatch 1)) (\<lambda>l.
               (case letter_index (toUpperCase l) of
                  None \<Rightarrow> Inr correctAnswer
                | Some index \<Rightarrow>
                    if index \<ge> 0 \<and> index < int (length options)
                    then Inr (options ! nat index)
                    else Inr correctAnswer)))
      else Inr correctAnswer)"

text \<open>The body of the \<^verbatim>\<open>forEach\<close>, for the section at \<open>index\<close>.\<close>

definition md_section :: "nat \<Rightarrow> string \<Rightarrow> js_error + QuizQuestion" where
  "md_section index section' =
     (let typeMatch = rx_match md_type_rx section'
      in bind_e (case typeMatch of
                   None \<Rightarrow> Inr ''open_ended''
                 | Some mt \<Rightarrow> bind_e (must (group mt 1)) (\<lambda>g. Inr (trim (toLowerCase g))))
           (\<lambda>type.
             let lines = map trim (split_lines section');
                 questionTextIndex =
                   (if typeMatch \<noteq> None
                    then findIndex (\<lambda>line. str_includes line ''**Type**:'') lines + 1
                    else findIndex (\<lambda>line. length line > 0) lines);
                 questionText =
                   (if questionTextIndex \<ge> 0 \<and> questionTextIndex < int (length lines)
                    then lines ! nat questionTextIndex else []);
                 options =
                   (if str_includes type ''multiple'' \<or> str_includes type ''choice''
                    then map (\<lambda>line. trim (replace_first md_option_rx (\<lambda>mt. []) line))
                           (filter (rx_test md_option_rx) lines)
                    else [])
             in bind_e (case rx_match md_correct_rx section' of
                          None \<Rightarrow> Inr []
                        | Some correctMatch \<Rightarrow>
                            bind_e (must (group correctMatch 1)) (\<lambda>g.
                              md_resolve_answer options (trim g)))
                  (\<lambda>correctAnswer.
                    bind_e (case rx_match md_explanation_rx section' of
                              None \<Rightarrow> Inr []
                            | Some explanationMatch \<Rightarrow>
                                bind_e (must (group explanationMatch 1)) (\<lambda>g. Inr (trim g)))
                      (\<lambda>explanation.
                        Inr \<lparr>q_id = of_nat index + 1,
                             q_type = normalizeQuestionType type,
                             q_text = questionText,
                             q_options = (if length options > 0 then Some options else None),
                             q_correctAnswer = correctAnswer,
                             q_explanation = (if explanation \<noteq> [] then Some explanation else None)\<rparr>))))"

definition with_index :: "'a list \<Rightarrow> (nat \<times> 'a) list" where
  "with_index xs = zip [0 ..< length xs] xs"

definition parseMarkdownResponse_body :: "host \<Rightarrow> string \<Rightarrow> js_error + Quiz option" where
  "parseMarkdownResponse_body h response =
     (let questionSections = rx_split md_split_rx response;
          filteredSections = drop 1 questionSections
      in if length filteredSections = 0 then Inr None
         else bind_e (sequence_e (map (\<lambda>(index, sec). md_section index sec) (with_index filteredSections)))
                (\<lambda>qs. Inr (Some \<lparr>questions = qs, metadata = fresh_metadata h, error = None\<rparr>)))"

definition parseMarkdownResponse :: "host \<Rightarrow> string \<Rightarrow> js_error + Quiz option" where
  "parseMarkdownResponse h response =
     try_catch (parseMarkdownResponse_body h response) (\<lambda>e. Inr None)"

subsection \<open>parseStructuredResponse\<close>

text \<open>\<^verbatim>\<open>/\n\s*(?:Q|Question)\s*\d+\.\s*/i\<close>\<close>

definition st_split_rx :: rx where
  "st_split_rx = seqs [ch CHR 0x0A, Star ws, Alt (lit_i ''Q'') (lit_i ''Question''), Star ws,
     Plus digit, ch CHR ''.'', Star ws]"

text \<open>\<^verbatim>\<open>/\[(?:Question\s+)?Type:\s*([^\]]+)\]/i\<close>\<close>

definition st_type_rx :: rx where
  "st_type_rx = seqs [ch CHR ''['', Opt (seqs [lit_i ''Question'', Plus ws]), lit_i ''Type:'',
     Star ws, Grp 1 (Plus (ncls '']'')), ch CHR '']'']"

definition abcd_i :: rx where
  "abcd_i = cls ''ABCDabcd''"

text \<open>\<^verbatim>\<open>/\n\s*(?:Options|[A-D]\.|\([a-d]\)|[a-d]\))/i\<close>\<close>

definition st_break_rx :: rx where
  "st_break_rx = seqs [ch CHR 0x0A, Star ws,
     alts (lit_i ''Options'')
       [seqs [abcd_i, ch CHR ''.''],
        seqs [ch CHR ''('', abcd_i, ch CHR '')''],
        seqs [abcd_i, ch CHR '')'']]]"

text \<open>\<^verbatim>\<open>/(?:Options|\n\s*[A-D]\.|\n\s*\([a-d]\)|\n\s*[a-d]\))([\s\S]*?)(?=\nCorrect Answer|\nAnswer|$)/i\<close>\<close>

definition st_option_section_rx :: rx where
  "st_option_section_rx = seqs [
     alts (lit_i ''Options'')
       [seqs [ch CHR 0x0A, Star ws, abcd_i, ch CHR ''.''],
        seqs [ch CHR 0x0A, Star ws, ch CHR ''('', abcd_i, ch CHR '')''],
        seqs [ch CHR 0x0A, Star ws, abcd_i, ch CHR '')'']],
     Grp 1 (StarL any_char),
     Ahead (alts (seqs [ch CHR 0x0A, lit_i ''Correct Answer''])
              [seqs [ch CHR 0x0A, lit_i ''Answer''], Eol])]"

text \<open>\<^verbatim>\<open>/^[A-D]\.|\([a-d]\)|[a-d]\)|^[a-d]\)|\s+[A-D]\./i\<close>\<close>

definition st_option_rx :: rx where
  "st_option_rx =
     alts (seqs [Bol, abcd_i, ch CHR ''.''])
       [seqs [ch CHR ''('', abcd_i, ch CHR '')''],
        seqs [abcd_i, ch CHR '')''],
        seqs [Bol, abcd_i, ch CHR '')''],
        seqs [Plus ws, abcd_i, ch CHR ''.'']]"

text \<open>\<^verbatim>\<open>/(?:Correct\s+Answer|Answer):\s*([^\n]+)/i\<close>\<close>

definition st_correct_rx :: rx where
  "st_correct_rx = seqs [
     Alt (seqs [lit_i ''Correct'', Plus ws, lit_i ''Answer'']) (lit_i ''Answer''),
     ch CHR '':'', Star ws, Grp 1 (Plus (ncls [CHR 0x0A]))]"

text \<open>\<^verbatim>\<open>/^[A-D]$/i\<close>\<close>

definition st_letter_rx :: rx where
  "st_letter_rx = seqs [Bol, abcd_i, Eol]"

text \<open>\<^verbatim>\<open>/(?:Explanation|Rationale):\s*([^\n].*?)(?=\n\s*(?:Q|Question)\s*\d+\.?|$)/is\<close>\<close>

definition st_explanation_rx :: rx where
  "st_explanation_rx = seqs [
     Alt (lit_i ''Explanation'') (lit_i ''Rationale''), ch CHR '':'', Star ws,
     Grp 1 (Seq (ncls [CHR 0x0A]) (StarL any_char)),
     Ahead (Alt (seqs [ch CHR 0x0A, Star ws, Alt (lit_i ''Q'') (lit_i ''Question''), Star ws,
                       Plus digit, Opt (ch CHR ''.'')])
                Eol)]"

text \<open>Lines 219 to 225: the letter of the answer becomes the text of the option.\<close>

definition st_resolve_answer :: "string list \<Rightarrow> string \<Rightarrow> string" where
  "st_resolve_answer options correctAnswer =
     (if length options > 0 \<and> rx_test st_letter_rx correctAnswer then
        (case letter_index (toUpperCase correctAnswer) of
           None \<Rightarrow> correctAnswer
         | Some index \<Rightarrow>
             if index \<ge> 0 \<and> index < int (length options)
             then options ! nat index
             else correctAnswer)
      else correctAnswer)"

text \<open>\<^verbatim>\<open>s.substring(i)\<close> and \<^verbatim>\<open>s.substring(0, j)\<close> for integers \<open>i\<close>, \<open>j\<close>: a negative
  index counts as 0.\<close>

definition substring_from :: "string \<Rightarrow> int \<Rightarrow> string" where
  "substring_from s i = drop (nat i) s"

definition substring_to :: "string \<Rightarrow> int \<Rightarrow> string" where
  "substring_to s j = take (nat j) s"

definition first_line :: "string \<Rightarrow> string" where
  "first_line s = (case split_lines s of [] \<Rightarrow> [] | l # ls \<Rightarrow> l)"

text \<open>The body of the \<^verbatim>\<open>for\<close> loop for a block that is not empty; \<open>number\<close> is
  \<^verbatim>\<open>i - startIndex + 1\<close>.\<close>

definition st_block :: "nat \<Rightarrow> string \<Rightarrow> js_error + QuizQuestion" where
  "st_block number block =
     (let typeMatch = rx_match st_type_rx block
      in bind_e (case typeMatch of
                   None \<Rightarrow> Inr ''open_ended''
                 | Some mt \<Rightarrow> bind_e (must (group mt 1)) (\<lambda>g. Inr (trim (toLowerCase g))))
           (\<lambda>type.
             let questionText =
                   (if typeMatch \<noteq> None then
                      (let afterType = trim (substring_from block (indexOf block '']'' + 1));
                           firstBreak = rx_search st_break_rx afterType
                       in if firstBreak > 0 then trim (substring_to afterType firstBreak)
                          else trim (first_line afterType))
                    else trim (first_line block))
             in bind_e (if str_includes type ''multiple'' \<or> str_includes type ''choice'' then
                          (case rx_match st_option_section_rx block of
                             None \<Rightarrow> Inr []
                           | Some optionSection \<Rightarrow>
                               bind_e (must (group optionSection 1)) (\<lambda>g.
                                 Inr (filter (\<lambda>option. option \<noteq> [])
                                   (map (\<lambda>line. trim (replace_first st_option_rx (\<lambda>mt. []) line))
                                     (filter (\<lambda>line. rx_test st_option_rx (trim line))
                                        (split_lines g))))))
                        else Inr [])
                  (\<lambda>options.
                    bind_e (case rx_match st_correct_rx block of
                              None \<Rightarrow> Inr []
                            | Some correctMatch \<Rightarrow>
                                bind_e (must (group correctMatch 1)) (\<lambda>g.
                                  Inr (st_resolve_answer options (trim g))))
                      (\<lambda>correctAnswer.
                        bind_e (case rx_match st_explanation_rx block of
                                  None \<Rightarrow> Inr []
                                | Some explanationMatch \<Rightarrow>
                                    bind_e (must (group explanationMatch 1)) (\<lambda>g. Inr (trim g)))
                          (\<lambda>explanation.
                            Inr \<lparr>q_id = of_nat number,
                                 q_type = normalizeQuestionType type,
                                 q_text = questionText,
                                 q_options = (if length options > 0 then Some options else None),
                                 q_correctAnswer = correctAnswer,
                                 q_explanation =
                                   (if explanation \<noteq> [] then Some explanation else None)\<rparr>)))))"

text \<open>The loop from \<open>startIndex\<close>: an empty block is skipped with \<^verbatim>\<open>continue\<close>, and still
  counts in the numbering.\<close>

fun st_blocks :: "nat \<Rightarrow> string list \<Rightarrow> js_error + QuizQuestion list" where
  "st_blocks number [] = Inr []"
| "st_blocks number (b # bs) =
     (let block = trim b
      in if block = [] then st_blocks (number + 1) bs
         else bind_e (st_block number block) (\<lambda>q.
                bind_e (st_blocks (number + 1) bs) (\<lambda>qs. Inr (q # qs))))"

definition parseStructuredResponse_body :: "host \<Rightarrow> string \<Rightarrow> js_error + Quiz option" where
  "parseStructuredResponse_body h response =
     (let questionBlocks = rx_split st_split_rx response
      in bind_e (must (case questionBlocks of [] \<Rightarrow> None | b # bs \<Rightarrow> Some b)) (\<lambda>b0.
           let startIndex = (if length (trim b0) > 0 then 0 else 1)
           in bind_e (st_blocks 1 (drop startIndex questionBlocks)) (\<lambda>qs.
                Inr (if length qs > 0
                     then Some \<lparr>questions = qs, metadata = fresh_metadata h, error = None\<rparr>
                     else None))))"

definition parseStructuredResponse :: "host \<Rightarrow> string \<Rightarrow> js_error + Quiz option" where
  "parseStructuredResponse h response =
     try_catch (parseStructuredResponse_body h response) (\<lambda>e. Inr None)"

subsection \<open>validateQuiz and parseQuizResponse\<close>

definition opt_default :: "bool \<Rightarrow> bool option \<Rightarrow> bool" where
  "opt_default d x = (case x of None \<Rightarrow> d | Some b \<Rightarrow> b)"

text \<open>The callback of \<^verbatim>\<open>map\<close> in \<^verbatim>\<open>validateQuiz\<close>, for the question at \<open>index\<close>; \<open>None\<close> is
  \<^verbatim>\<open>null\<close>. The type of a parsed question is one of the four, so the second test never
  changes it.\<close>

definition validateQuestion :: "bool \<Rightarrow> bool \<Rightarrow> nat \<Rightarrow> QuizQuestion \<Rightarrow> QuizQuestion option" where
  "validateQuestion requireExpl normalizeAns index q0 =
     (let q1 = (if q_id q0 = 0 then q0\<lparr>q_id := of_nat index + 1\<rparr> else q0)
      in if q_type q1 = multiple_choice \<and>
            (case q_options q1 of None \<Rightarrow> True | Some os \<Rightarrow> length os < 2)
         then None
         else
           (let q2 = (if q_type q1 = true_false \<and> normalizeAns
                      then q1\<lparr>q_correctAnswer :=
                             (if str_includes (toLowerCase (q_correctAnswer q1)) ''true''
                              then ''True'' else ''False'')\<rparr>
                      else q1)
            in if requireExpl \<and>
                  (case q_explanation q2 of None \<Rightarrow> True | Some e \<Rightarrow> length (trim e) = 0)
               then None
               else Some q2))"

text \<open>The questions of a parsed quiz are always an array, so the first test of
  \<^verbatim>\<open>validateQuiz\<close> never fires; the metadata of a parsed quiz is always there.\<close>

definition validateQuiz :: "Quiz \<Rightarrow> ParsingOptions \<Rightarrow> Quiz" where
  "validateQuiz quiz options =
     (let validate = opt_default True (validateQuestions options);
          requireExpl = opt_default False (requireExplanations options);
          normalizeAns = opt_default True (normalizeAnswers options)
      in if \<not> validate then quiz
         else
           (let validQuestions =
                  map the (filter (\<lambda>q. q \<noteq> None)
                    (map (\<lambda>(index, q). validateQuestion requireExpl normalizeAns index q)
                       (with_index (questions quiz))))
            in if length validQuestions = 0
               then \<lparr>questions = [],
                     metadata = metadata quiz,
                     error = Some ''No valid questions found after validation''\<rparr>
               else \<lparr>questions = validQuestions, metadata = metadata quiz, error = None\<rparr>))"

definition parseQuizResponse :: "host \<Rightarrow> string \<Rightarrow> ParsingOptions \<Rightarrow> js_error + Quiz" where
  "parseQuizResponse h response options =
     bind_e (parseJSONResponse h response) (\<lambda>jsonQuiz.
       if jsonQuiz \<noteq> None \<and> length (questions (the jsonQuiz)) > 0
       then Inr (validateQuiz (the jsonQuiz) options)
       else
         bind_e (parseMarkdownResponse h response) (\<lambda>markdownQuiz.
           if markdownQuiz \<noteq> None \<and> length (questions (the markdownQuiz)) > 0
           then Inr (validateQuiz (the markdownQuiz) options)
           else
             bind_e (parseStructuredResponse h response) (\<lambda>structuredQuiz.
               if structuredQuiz \<noteq> None \<and> length (questions (the structuredQuiz)) > 0
               then Inr (validateQuiz (the structuredQuiz) options)
               else Inr \<lparr>questions = [],
                         metadata = fresh_metadata h,
                         error = Some ''Failed to parse quiz response into a structured format''\<rparr>)))"

text \<open>\<^verbatim>\<open>parseQuizResponse(response)\<close>: the options default to \<^verbatim>\<open>{}\<close>.\<close>

definition default_options :: ParsingOptions where
  "default_options = \<lparr>validateQuestions = None, requireExplanations = None, normalizeAnswers = None\<rparr>"

section \<open>The evaluation response parser (ResponseEvaluationService)\<close>

record Scores =
  overall :: json
  criteria :: json

record Feedback =
  strengths :: "json list"
  improvements :: "json list"
  misconceptions :: "json list"
  summary :: string

text \<open>The fields hold what the code puts there at run time: \<^verbatim>\<open>validateEvaluationResult\<close>
  passes on any truthy \<^verbatim>\<open>criteria\<close>, any array and any \<^verbatim>\<open>raw\<close> of the parsed object.\<close>

record EvaluationResult =
  scores :: Scores
  feedback :: Feedback
  missingElements :: "json list"
  explanation :: string
  raw :: "json option"

subsection \<open>validateEvaluationResult\<close>

text \<open>\<^verbatim>\<open>v?.k\<close> on an optional value.\<close>

definition opt_prop :: "json option \<Rightarrow> string \<Rightarrow> json option" where
  "opt_prop v k = (case v of None \<Rightarrow> None | Some x \<Rightarrow> get_prop x k)"

definition array_or_empty :: "json option \<Rightarrow> json list" where
  "array_or_empty v = (case v of Some (JArr xs) \<Rightarrow> xs | _ \<Rightarrow> [])"

definition string_or_empty :: "json option \<Rightarrow> string" where
  "string_or_empty v = (case v of Some (JStr s) \<Rightarrow> s | _ \<Rightarrow> [])"

definition validateEvaluationResult :: "json \<Rightarrow> EvaluationResult" where
  "validateEvaluationResult result =
     \<lparr>scores = \<lparr>
        overall = (case opt_prop (get_prop result ''scores'') ''overall'' of
                     Some (JNum n) \<Rightarrow> JNum n | _ \<Rightarrow> JNum 0),
        criteria = (case opt_prop (get_prop result ''scores'') ''criteria'' of
                      Some c \<Rightarrow> if falsy c then JObj [] else c
                    | None \<Rightarrow> JObj [])\<rparr>,
      feedback = \<lparr>
        strengths = array_or_empty (opt_prop (get_prop result ''feedback'') ''strengths''),
        improvements = array_or_empty (opt_prop (get_prop result ''feedback'') ''improvements''),
        misconceptions = array_or_empty (opt_prop (get_prop result ''feedback'') ''misconceptions''),
        summary = string_or_empty (opt_prop (get_prop result ''feedback'') ''summary'')\<rparr>,
      missingElements = array_or_empty (get_prop result ''missingElements''),
      explanation = string_or_empty (get_prop result ''explanation''),
      raw = get_prop result ''raw''\<rparr>"

subsection \<open>extractStructuredEvaluation\<close>

text \<open>\<^verbatim>\<open>\s*(\d+(?:\.\d+)?)\s*(?:\/|\s*out of\s*)\s*10\<close>, with or without flag i, the group
  having the number \<open>n\<close>.\<close>

definition score_tail :: "bool \<Rightarrow> nat \<Rightarrow> rx list" where
  "score_tail ci n = [Star ws,
     Grp n (seqs [Plus digit, Opt (seqs [ch CHR ''.'', Plus digit])]),
     Star ws,
     Alt (ch CHR ''/'') (seqs [Star ws, (if ci then lit_i else lit) ''out of'', Star ws]),
     Star ws, lit ''10'']"

text \<open>\<^verbatim>\<open>/Overall:\s*(\d+(?:\.\d+)?)\s*(?:\/|\s*out of\s*)\s*10/i\<close>\<close>

definition overall_rx :: rx where
  "overall_rx = seqs (lit_i ''Overall:'' # score_tail True 1)"

text \<open>\<^verbatim>\<open>/([A-Za-z_]+):\s*(\d+(?:\.\d+)?)\s*(?:\/|\s*out of\s*)\s*10/g\<close>\<close>

definition score_rx :: rx where
  "score_rx = seqs (Grp 1 (Plus (cls (upper_letters @ lower_letters @ ''_''))) # ch CHR '':''
     # score_tail False 2)"

text \<open>\<^verbatim>\<open>/(?:Strengths|Strengths:)([\s\S]*?)(?:Areas for Improvement|Improvements|Misconceptions|Missing Elements|$)/i\<close>\<close>

definition strengths_rx :: rx where
  "strengths_rx = seqs [Alt (lit_i ''Strengths'') (lit_i ''Strengths:''), Grp 1 (StarL any_char),
     alts (lit_i ''Areas for Improvement'')
       [lit_i ''Improvements'', lit_i ''Misconceptions'', lit_i ''Missing Elements'', Eol]]"

text \<open>\<^verbatim>\<open>/(?:Areas for Improvement|Improvements:)([\s\S]*?)(?:Misconceptions|Missing Elements|Explanation|$)/i\<close>\<close>

definition improvements_rx :: rx where
  "improvements_rx = seqs [Alt (lit_i ''Areas for Improvement'') (lit_i ''Improvements:''),
     Grp 1 (StarL any_char),
     alts (lit_i ''Misconceptions'') [lit_i ''Missing Elements'', lit_i ''Explanation'', Eol]]"

text \<open>\<^verbatim>\<open>/(?:Misconceptions:)([\s\S]*?)(?:Missing Elements|Explanation|$)/i\<close>\<close>

definition misconceptions_rx :: rx where
  "misconceptions_rx = seqs [lit_i ''Misconceptions:'', Grp 1 (StarL any_char),
     alts (lit_i ''Missing Elements'') [lit_i ''Explanation'', Eol]]"

text \<open>\<^verbatim>\<open>/(?:Missing Elements:)([\s\S]*?)(?:Explanation|$)/i\<close>\<close>

definition missing_rx :: rx where
  "missing_rx = seqs [lit_i ''Missing Elements:'', Grp 1 (StarL any_char),
     Alt (lit_i ''Explanation'') Eol]"

text \<open>\<^verbatim>\<open>/(?:Explanation:)([\s\S]*?)$/i\<close>\<close>

definition explanation_rx :: rx where
  "explanation_rx = seqs [lit_i ''Explanation:'', Grp 1 (StarL any_char), Eol]"

text \<open>\<^verbatim>\<open>/(?:\r?\n|^)\s*(?:[-*]|\d+\.)\s*/\<close>; the source's class also holds the bullet U+2022,
  a code unit above 255.\<close>

definition bullet_rx :: rx where
  "bullet_rx = seqs [Alt (seqs [Opt (ch CHR 0x0D), ch CHR 0x0A]) Bol, Star ws,
     Alt (cls ''-*'') (seqs [Plus digit, ch CHR ''.'']), Star ws]"

definition extractBulletPoints :: "string \<Rightarrow> string list" where
  "extractBulletPoints text' =
     (if text' = [] then []
      else filter (\<lambda>p. length p > 0) (map trim (rx_split bullet_rx text')))"

text \<open>\<^verbatim>\<open>parseFloat\<close> on the strings the patterns capture: digits, then optionally a point
  and digits. \<open>None\<close> is \<^verbatim>\<open>NaN\<close>.\<close>

definition parseFloat :: "string \<Rightarrow> rat option" where
  "parseFloat s =
     (let ip = takeWhile is_digit s;
          r = dropWhile is_digit s;
          fp = (case r of c # r' \<Rightarrow> if c = CHR ''.'' then takeWhile is_digit r' else [] | [] \<Rightarrow> [])
      in if ip = [] \<and> fp = [] then None
         else Some ((of_nat (digits_val (ip @ fp)) :: rat) / 10 ^ length fp))"

text \<open>A number that may be \<^verbatim>\<open>NaN\<close>, as a value.\<close>

definition num_json :: "rat option \<Rightarrow> json" where
  "num_json x = (case x of None \<Rightarrow> JNull | Some n \<Rightarrow> JNum n)"

text \<open>The body of the loop over the matches of \<open>score_rx\<close>. An assignment to the key
  \<^verbatim>\<open>__proto__\<close> of a number creates no property.\<close>

definition add_criterion :: "(string \<times> rat option) list \<Rightarrow> rmatch \<Rightarrow> js_error + (string \<times> rat option) list" where
  "add_criterion criteriaScores mt =
     bind_e (must (group mt 1)) (\<lambda>g1.
       let criterion = trim (toLowerCase g1)
       in if criterion \<noteq> ''overall'' then
            bind_e (must (group mt 2)) (\<lambda>g2.
              Inr (if criterion = ''__proto__'' then criteriaScores
                   else obj_set criteriaScores criterion (parseFloat g2)))
          else Inr criteriaScores)"

fun add_criteria :: "(string \<times> rat option) list \<Rightarrow> rmatch list \<Rightarrow> js_error + (string \<times> rat option) list" where
  "add_criteria acc [] = Inr acc"
| "add_criteria acc (mt # ms) = bind_e (add_criterion acc mt) (\<lambda>acc'. add_criteria acc' ms)"

definition section_points :: "rx \<Rightarrow> string \<Rightarrow> js_error + string list" where
  "section_points r response =
     (case rx_match r response of
        None \<Rightarrow> Inr []
      | Some mt \<Rightarrow> bind_e (must (group mt 1)) (\<lambda>g. Inr (extractBulletPoints g)))"

text \<open>A function that may not return has the value \<open>None\<close> when it does not; here that is
  the loop over \<^verbatim>\<open>scoreRegex.exec(response)\<close>. Inside, \<open>Inr None\<close> is \<^verbatim>\<open>null\<close>. A
  score is what \<^verbatim>\<open>parseFloat\<close> returns: a number, or \<^verbatim>\<open>NaN\<close>, written \<open>JNull\<close>.\<close>

definition extractStructuredEvaluation :: "string \<Rightarrow> (js_error + EvaluationResult option) option" where
  "extractStructuredEvaluation response =
     (let overallScoreMatch = rx_match overall_rx response
      in case exec_loop score_rx response of
           None \<Rightarrow> None
         | Some ms \<Rightarrow> Some (
             bind_e (case overallScoreMatch of
                       None \<Rightarrow> Inr (Some 0)
                     | Some mt \<Rightarrow> bind_e (must (group mt 1)) (\<lambda>g. Inr (parseFloat g)))
               (\<lambda>overallScore.
             bind_e (add_criteria [] ms) (\<lambda>criteriaScores.
             bind_e (section_points strengths_rx response) (\<lambda>strengths'.
             bind_e (section_points improvements_rx response) (\<lambda>improvements'.
             bind_e (section_points misconceptions_rx response) (\<lambda>misconceptions'.
             bind_e (section_points missing_rx response) (\<lambda>missingElements'.
             bind_e (case rx_match explanation_rx response of
                       None \<Rightarrow> Inr []
                     | Some mt \<Rightarrow> bind_e (must (group mt 1)) (\<lambda>g. Inr (trim g)))
               (\<lambda>explanation'.
                 if overallScoreMatch = None \<and> length criteriaScores = 0 then Inr None
                 else Inr (Some \<lparr>
                   scores = \<lparr>overall = num_json overallScore,
                             criteria = JObj (map (\<lambda>(k, v). (k, num_json v)) criteriaScores)\<rparr>,
                   feedback = \<lparr>strengths = map JStr strengths',
                               improvements = map JStr improvements',
                               misconceptions = map JStr misconceptions',
                               summary = take 200 explanation'\<rparr>,
                   missingElements = map JStr missingElements',
                   explanation = explanation',
                   raw = None\<rparr>))))))))))"

subsection \<open>parseEvaluationResponse\<close>

definition fallback_result :: "string \<Rightarrow> EvaluationResult" where
  "fallback_result response =
     \<lparr>scores = \<lparr>overall = JNum 0, criteria = JObj []\<rparr>,
      feedback = \<lparr>strengths = [],
                  improvements = [JStr ''Could not parse evaluation''],
                  misconceptions = [],
                  summary = ''Unable to process the evaluation''\<rparr>,
      missingElements = [],
      explanation = ''The system encountered an error processing the evaluation'',
      raw = Some (JStr response)\<rparr>"

text \<open>\<^verbatim>\<open>parsedJson.raw = response\<close>: a property of an object or an array is set; on
  \<^verbatim>\<open>null\<close> and on a primitive value the assignment throws (the module is strict code).
  An array has none of the properties the validator reads.\<close>

definition set_raw :: "json \<Rightarrow> string \<Rightarrow> js_error + json" where
  "set_raw parsedJson response =
     (case parsedJson of
        JObj kvs \<Rightarrow> Inr (JObj (obj_set kvs ''raw'' (JStr response)))
      | JArr xs \<Rightarrow> Inr (JObj [(''raw'', JStr response)])
      | _ \<Rightarrow> Inl TypeError)"

definition parseEvaluationResponse_body :: "string \<Rightarrow> (js_error + EvaluationResult) option" where
  "parseEvaluationResponse_body response =
     (case fenced_json response of
        Some g \<Rightarrow>
          Some (bind_e (JSON_parse (cleanJson g)) (\<lambda>parsedJson.
                  bind_e (set_raw parsedJson response) (\<lambda>withRaw.
                    Inr (validateEvaluationResult withRaw))))
      | None \<Rightarrow>
          (case extractStructuredEvaluation response of
             None \<Rightarrow> None
           | Some x \<Rightarrow>
               Some (bind_e x (\<lambda>parsedResult.
                 case parsedResult of
                   Some r \<Rightarrow> Inr (r\<lparr>raw := Some (JStr response)\<rparr>)
                 | None \<Rightarrow> Inr (fallback_result response)))))"

text \<open>The \<^verbatim>\<open>catch\<close> wraps what was thrown in a new error and throws that.\<close>

definition parseEvaluationResponse :: "string \<Rightarrow> (js_error + EvaluationResult) option" where
  "parseEvaluationResponse response =
     map_option
       (\<lambda>body. try_catch body (\<lambda>e. Inl (WrappedError ''Failed to parse evaluation response: '' e)))
       (parseEvaluationResponse_body response)"

section \<open>Token estimates and the content preprocessor\<close>

text \<open>Numbers that are not counts are real numbers here: the rounding of binary64
  arithmetic is not modelled.\<close>

subsection \<open>estimateTokenCount, twice\<close>

text \<open>In server/claude/tokens.ts: \<^verbatim>\<open>Math.ceil(text.length / 4)\<close>.\<close>

definition tokens_estimateTokenCount :: "string \<Rightarrow> int" where
  "tokens_estimateTokenCount text' =
     (if text' = [] then 0 else \<lceil>real (length text') / 4\<rceil>)"

definition TOKENS_PER_CHAR :: real where
  "TOKENS_PER_CHAR = 0.25"

text \<open>In the preprocessor: \<^verbatim>\<open>Math.ceil(charCount * TOKENS_PER_CHAR)\<close>.\<close>

definition estimateTokenCount :: "string \<Rightarrow> int" where
  "estimateTokenCount text' =
     (if text' = [] then 0
      else (let charCount = length text' in \<lceil>real charCount * TOKENS_PER_CHAR\<rceil>))"

subsection \<open>cleanContent\<close>

text \<open>\<^verbatim>\<open>/\s+/g\<close>\<close>

definition spaces_rx :: rx where
  "spaces_rx = Plus ws"

text \<open>\<^verbatim>\<open>/<script\b[^<]*(?:(?!<\/script>)<[^<]*)*<\/script>/gi\<close>, and the same for \<^verbatim>\<open>style\<close>.\<close>

definition element_rx :: "string \<Rightarrow> rx" where
  "element_rx name = seqs [lit_i (''<'' @ name), WordB, Star (ncls ''<''),
     Star (seqs [NAhead (lit_i (''</'' @ name @ ''>'')), ch CHR ''<'', Star (ncls ''<'')]),
     lit_i (''</'' @ name @ ''>'')]"

text \<open>\<^verbatim>\<open>/<!--[\s\S]*?-->/g\<close>\<close>

definition html_comment_rx :: rx where
  "html_comment_rx = seqs [lit ''<!--'', StarL any_char, lit ''-->'']"

text \<open>\<^verbatim>\<open>/<\/?[^>]+(>|$)/g\<close>\<close>

definition tag_rx :: rx where
  "tag_rx = seqs [ch CHR ''<'', Opt (ch CHR ''/''), Plus (ncls ''>''), Grp 1 (Alt (ch CHR ''>'') Eol)]"

definition cleanContent :: "string \<Rightarrow> string" where
  "cleanContent content =
     (if content = [] then []
      else
        (let c1 = replace_all spaces_rx (\<lambda>mt. '' '') content;
             c2 = replace_all (element_rx ''script'') (\<lambda>mt. []) c1;
             c3 = replace_all (element_rx ''style'') (\<lambda>mt. []) c2;
             c4 = replace_all html_comment_rx (\<lambda>mt. []) c3;
             c5 = replace_all tag_rx (\<lambda>mt. []) c4
         in trim (replace_all spaces_rx (\<lambda>mt. '' '') c5)))"

subsection \<open>extractKeyTerms\<close>

definition letter :: rx where
  "letter = cls (upper_letters @ lower_letters)"

text \<open>\<^verbatim>\<open>([A-Z][a-z]+(?:\s[A-Z][a-z]+)*)\<close> under flag i\<close>

definition term_rx :: rx where
  "term_rx = Grp 1 (seqs [letter, Plus letter, Star (seqs [ws, letter, Plus letter])])"

text \<open>\<^verbatim>\<open>/(term)\s+is\s+defined\s+as\s+([^.]+)/gi\<close>, and the same with \<^verbatim>\<open>refers to\<close>, \<^verbatim>\<open>means\<close>
  and \<^verbatim>\<open>is a\<close>: the words between the term and its definition are the parameter.\<close>

definition definition_rx :: "string list \<Rightarrow> rx" where
  "definition_rx words =
     seqs (term_rx # concat (map (\<lambda>w. [Plus ws, lit_i w]) words) @ [Plus ws, Grp 2 (Plus (ncls ''.''))])"

definition termDefinitionPatterns :: "rx list" where
  "termDefinitionPatterns =
     [definition_rx [''is'', ''defined'', ''as''],
      definition_rx [''refers'', ''to''],
      definition_rx [''means''],
      definition_rx [''is'', ''a'']]"

definition add_term :: "(string \<times> string) list \<Rightarrow> rmatch \<Rightarrow> js_error + (string \<times> string) list" where
  "add_term keyTerms mt =
     bind_e (must (group mt 1)) (\<lambda>g1.
       bind_e (must (group mt 2)) (\<lambda>g2.
         let term' = trim g1; definition' = trim g2
         in Inr (if term' \<noteq> [] \<and> definition' \<noteq> [] \<and> length term' > 3
                 then obj_set keyTerms term' definition'
                 else keyTerms)))"

fun add_terms :: "(string \<times> string) list \<Rightarrow> rmatch list \<Rightarrow> js_error + (string \<times> string) list" where
  "add_terms acc [] = Inr acc"
| "add_terms acc (mt # ms) = bind_e (add_term acc mt) (\<lambda>acc'. add_terms acc' ms)"

text \<open>The \<^verbatim>\<open>forEach\<close> over the patterns, each with its loop over \<^verbatim>\<open>pattern.exec(content)\<close>;
  \<open>None\<close> when a loop does not end.\<close>

fun extractKeyTerms_loop :: "rx list \<Rightarrow> string \<Rightarrow> (string \<times> string) list
    \<Rightarrow> (js_error + (string \<times> string) list) option" where
  "extractKeyTerms_loop [] content acc = Some (Inr acc)"
| "extractKeyTerms_loop (pattern # ps) content acc =
     (case exec_loop pattern content of
        None \<Rightarrow> None
      | Some ms \<Rightarrow>
          (case add_terms acc ms of
             Inl e \<Rightarrow> Some (Inl e)
           | Inr acc' \<Rightarrow> extractKeyTerms_loop ps content acc'))"

definition extractKeyTerms :: "string \<Rightarrow> (js_error + (string \<times> string) list) option" where
  "extractKeyTerms content = extractKeyTerms_loop termDefinitionPatterns content []"

subsection \<open>truncateContent and its helpers\<close>

definition MAX_CONTENT_TOKENS :: real where
  "MAX_CONTENT_TOKENS = 200000"

text \<open>\<^verbatim>\<open>/[^.!?]+[.!?]+/g\<close>\<close>

definition sentence_rx :: rx where
  "sentence_rx = seqs [Plus (ncls ''.!?''), Plus (cls ''.!?'')]"

text \<open>The \<^verbatim>\<open>while\<close> loop of \<^verbatim>\<open>summarizeSection\<close> over the sentences from index 1; a sentence
  is never empty, so \<^verbatim>\<open>!nextSentence\<close> is only there for the type checker.\<close>

fun summarize_loop :: "string \<Rightarrow> int \<Rightarrow> real \<Rightarrow> string list \<Rightarrow> string" where
  "summarize_loop summary' tokenCount maxTokens' [] = summary'"
| "summarize_loop summary' tokenCount maxTokens' (nextSentence # rest') =
     (if real_of_int tokenCount < maxTokens' then
        (if nextSentence = [] then summarize_loop summary' tokenCount maxTokens' rest'
         else
           (let nextTokens = estimateTokenCount nextSentence
            in if real_of_int (tokenCount + nextTokens) \<le> maxTokens'
               then summarize_loop (summary' @ '' '' @ nextSentence) (tokenCount + nextTokens)
                      maxTokens' rest'
               else summary'))
      else summary')"

definition summarizeSection :: "string \<Rightarrow> real \<Rightarrow> string" where
  "summarizeSection section' maxTokens' =
     (case map whole (match_all sentence_rx section') of
        [] \<Rightarrow> []
      | first # rest' \<Rightarrow>
          if real_of_int (estimateTokenCount section') \<le> maxTokens' then section'
          else summarize_loop first (estimateTokenCount first) maxTokens' rest' @ '' [...]'')"

text \<open>\<^verbatim>\<open>/\n\s*#{1,3}\s+[^\n]+|\n\s*\n/g\<close>\<close>

definition sectionDelimiters :: rx where
  "sectionDelimiters =
     Alt (seqs [ch CHR 0x0A, Star ws, Rep13 (ch CHR ''#''), Plus ws, Plus (ncls [CHR 0x0A])])
         (seqs [ch CHR 0x0A, Star ws, ch CHR 0x0A])"

text \<open>The pieces between the matches: the text before each match, when there is some, and
  the text after the last one, when there is some.\<close>

fun pieces :: "rmatch list \<Rightarrow> string \<Rightarrow> string list" where
  "pieces [] content = (if content = [] then [] else [content])"
| "pieces [mt] content =
     (if pre mt = [] then [] else [pre mt]) @ (if post mt = [] then [] else [post mt])"
| "pieces (mt # mt' # ms) content =
     (if pre mt = [] then [] else [pre mt]) @ pieces (mt' # ms) content"

definition splitIntoSections :: "string \<Rightarrow> string list option" where
  "splitIntoSections content =
     (case exec_loop sectionDelimiters content of
        None \<Rightarrow> None
      | Some ms \<Rightarrow> Some (filter (\<lambda>section'. length (trim section') > 0) (pieces ms content)))"

text \<open>\<^verbatim>\<open>/#{1,3}\s+.*?(important|key|main|significant|primary|central)/i\<close>\<close>

definition heading_keyword_rx :: rx where
  "heading_keyword_rx = seqs [Rep13 (ch CHR ''#''), Plus ws, StarL dot,
     Grp 1 (alts (lit_i ''important'')
       [lit_i ''key'', lit_i ''main'', lit_i ''significant'', lit_i ''primary'', lit_i ''central''])]"

text \<open>\<^verbatim>\<open>/\n\s*[-*]\s+|\n\s*\d+\.\s+/g\<close>\<close>

definition list_item_rx :: rx where
  "list_item_rx =
     Alt (seqs [ch CHR 0x0A, Star ws, cls ''-*'', Plus ws])
         (seqs [ch CHR 0x0A, Star ws, Plus digit, ch CHR ''.'', Plus ws])"

text \<open>\<^verbatim>\<open>/conclusion|therefore|thus|in summary|key point|importantly/gi\<close>\<close>

definition keyword_rx :: rx where
  "keyword_rx = alts (lit_i ''conclusion'')
     [lit_i ''therefore'', lit_i ''thus'', lit_i ''in summary'', lit_i ''key point'',
      lit_i ''importantly'']"

definition section_score :: "string \<Rightarrow> int" where
  "section_score section' =
     (if rx_test heading_keyword_rx section' then 10 else 0)
     + int (length (match_all list_item_rx section')) * 2
     + int (length (match_all keyword_rx section')) * 3
     + (if length (rx_split spaces_rx section') < 50 then 2 else 0)"

text \<open>\<^verbatim>\<open>sort((a, b) => b.score - a.score)\<close>: a stable sort, the higher score first.\<close>

definition rankSectionsByImportance :: "string list \<Rightarrow> string list" where
  "rankSectionsByImportance sections = sort_key (\<lambda>section'. - section_score section') sections"

text \<open>The \<^verbatim>\<open>for\<close> loop of \<^verbatim>\<open>extractImportantContent\<close> over the ranked sections.\<close>

fun select_sections :: "real \<Rightarrow> int \<Rightarrow> string list \<Rightarrow> string list" where
  "select_sections remainingTokens tokenCount [] = []"
| "select_sections remainingTokens tokenCount (section' # rest') =
     (let sectionTokens = estimateTokenCount section'
      in if real_of_int (tokenCount + sectionTokens) \<le> remainingTokens
         then section' # select_sections remainingTokens (tokenCount + sectionTokens) rest'
         else
           (let summaryTokenBudget = remainingTokens - real_of_int tokenCount
            in if summaryTokenBudget > 100 then [summarizeSection section' summaryTokenBudget]
               else []))"

definition extractImportantContent :: "string \<Rightarrow> real \<Rightarrow> string option" where
  "extractImportantContent content maxTokens' =
     (case splitIntoSections content of
        None \<Rightarrow> None
      | Some sections \<Rightarrow>
          (let introduction = (case sections of [] \<Rightarrow> [] | x # xs \<Rightarrow> x);
               sections1 = drop 1 sections;
               conclusion = (if sections1 = [] then [] else last sections1);
               sections2 = butlast sections1;
               introTokens = estimateTokenCount introduction;
               conclusionTokens = estimateTokenCount conclusion;
               remainingTokens = maxTokens' - real_of_int introTokens - real_of_int conclusionTokens;
               rankedSections = rankSectionsByImportance sections2;
               selectedSections = select_sections remainingTokens 0 rankedSections
           in Some (join [CHR 0x0A, CHR 0x0A]
                ([introduction, ''[Some content summarized for length...]'']
                 @ selectedSections
                 @ [''[Some content omitted for length...]'', conclusion]))))"

text \<open>\<^verbatim>\<open>/\n\s*\n/\<close>\<close>

definition paragraph_rx :: rx where
  "paragraph_rx = seqs [ch CHR 0x0A, Star ws, ch CHR 0x0A]"

text \<open>\<^verbatim>\<open>xs.slice(i)\<close> and \<^verbatim>\<open>xs.slice(i, j)\<close> for integers: a negative index counts from the
  end.\<close>

definition slice_index :: "'a list \<Rightarrow> int \<Rightarrow> nat" where
  "slice_index xs i = (if i < 0 then nat (int (length xs) + i) else nat i)"

definition slice :: "'a list \<Rightarrow> int \<Rightarrow> int \<Rightarrow> 'a list" where
  "slice xs i j = drop (slice_index xs i) (take (slice_index xs j) xs)"

definition slice_from :: "'a list \<Rightarrow> int \<Rightarrow> 'a list" where
  "slice_from xs i = drop (slice_index xs i) xs"

definition truncation_marker :: string where
  "truncation_marker = ''[Content truncated for length...]''"

definition truncateContent :: "string \<Rightarrow> real \<Rightarrow> string option" where
  "truncateContent content maxTokens' =
     (if content = [] then Some []
      else
        (let estimatedTokens = estimateTokenCount content
         in if real_of_int estimatedTokens \<le> maxTokens' then Some content
            else
              (let paragraphs = rx_split paragraph_rx content;
                   averageTokensPerParagraph = real_of_int estimatedTokens / real (length paragraphs);
                   maxParagraphs = \<lfloor>maxTokens' / averageTokensPerParagraph\<rfloor>
               in if real_of_int maxParagraphs < real (length paragraphs) / 2
                  then extractImportantContent content maxTokens'
                  else
                    (let startParagraphs = \<lceil>real_of_int maxParagraphs * 0.5\<rceil>;
                         endParagraphs = \<lceil>real_of_int maxParagraphs * 0.3\<rceil>;
                         middleParagraphs = maxParagraphs - startParagraphs - endParagraphs;
                         middleStart = \<lfloor>(real (length paragraphs) - real_of_int middleParagraphs) / 2\<rfloor>
                     in Some (join [CHR 0x0A, CHR 0x0A]
                          (slice paragraphs 0 startParagraphs
                           @ (if int (length paragraphs) > maxParagraphs then [truncation_marker] else [])
                           @ (if middleParagraphs > 0
                              then slice paragraphs middleStart (middleStart + middleParagraphs)
                                   @ [truncation_marker]
                              else [])
                           @ (if endParagraphs > 0
                              then slice_from paragraphs (int (length paragraphs) - endParagraphs)
                              else [])))))))"

subsection \<open>preprocessContent\<close>

text \<open>The field \<open>shouldExtractTerms\<close> is the option \<^verbatim>\<open>extractKeyTerms\<close>, under the name the
  function gives it.\<close>

record PreprocessingOptions =
  maxTokens :: "real option"
  preserveHeadings :: "bool option"
  shouldExtractTerms :: "bool option"
  summarizeLongSections :: "bool option"

definition keyTermsSection_of :: "(string \<times> string) list \<Rightarrow> string" where
  "keyTermsSection_of terms =
     (if length terms > 0
      then ''KEY TERMS:'' @ [CHR 0x0A]
           @ join [CHR 0x0A] (map (\<lambda>(term', definition'). ''- '' @ term' @ '': '' @ definition') terms)
           @ [CHR 0x0A, CHR 0x0A]
      else [])"

definition preprocessContent :: "string \<Rightarrow> PreprocessingOptions \<Rightarrow> (js_error + string) option" where
  "preprocessContent content options =
     (let maxTokens' = (case maxTokens options of None \<Rightarrow> MAX_CONTENT_TOKENS | Some n \<Rightarrow> n);
          processedContent = cleanContent content;
          tokenEstimate = estimateTokenCount processedContent
      in case (if opt_default True (shouldExtractTerms options)
               then (case extractKeyTerms processedContent of
                       None \<Rightarrow> None
                     | Some (Inl e) \<Rightarrow> Some (Inl e)
                     | Some (Inr terms) \<Rightarrow> Some (Inr (keyTermsSection_of terms)))
               else Some (Inr [])) of
           None \<Rightarrow> None
         | Some (Inl e) \<Rightarrow> Some (Inl e)
         | Some (Inr keyTermsSection) \<Rightarrow>
             (let keyTermsTokens = estimateTokenCount keyTermsSection;
                  contentTokenBudget = maxTokens' - real_of_int keyTermsTokens
              in if real_of_int tokenEstimate > contentTokenBudget
                 then (case truncateContent processedContent contentTokenBudget of
                         None \<Rightarrow> None
                       | Some truncated \<Rightarrow> Some (Inr (keyTermsSection @ truncated)))
                 else Some (Inr (keyTermsSection @ processedContent))))"

section \<open>The retry policy (server/claude/parser.ts)\<close>




section \<open>Notions used in the statements, and example inputs\<close>

text \<open>The test of \<^verbatim>\<open>validateQuiz\<close> that drops a multiple-choice question, the quiz
  \<^verbatim>\<open>parseQuizResponse\<close> returns when no format gives a question, and the test
  \<^verbatim>\<open>quiz && quiz.questions.length > 0\<close> it makes on each format.\<close>

definition invalid_multiple_choice :: "QuizQuestion \<Rightarrow> bool" where
  "invalid_multiple_choice q =
     (q_type q = multiple_choice \<and> (case q_options q of None \<Rightarrow> True | Some os \<Rightarrow> length os < 2))"

definition failed_quiz :: "host \<Rightarrow> Quiz" where
  "failed_quiz h = \<lparr>questions = [], metadata = fresh_metadata h,
     error = Some ''Failed to parse quiz response into a structured format''\<rparr>"

definition accepted :: "Quiz option \<Rightarrow> bool" where
  "accepted x = (x \<noteq> None \<and> length (questions (the x)) > 0)"

text \<open>What can be read off a pattern: whether every match of it consumes input, and
  whether every match of it sets a group. A state \<open>s'\<close> is reached from \<open>s\<close> when no input
  was given back and no capture was lost; a matcher is sound when it only ever calls its
  continuation on states reached from where it started; a match is good when it is not
  empty where the pattern consumes, and has the groups the pattern sets.\<close>

fun consumes :: "rx \<Rightarrow> bool" where
  "consumes (Chr p) = True"
| "consumes (Seq a b) = (consumes a \<or> consumes b)"
| "consumes (Alt a b) = (consumes a \<and> consumes b)"
| "consumes (Grp n a) = consumes a"
| "consumes r = False"

fun captures :: "nat \<Rightarrow> rx \<Rightarrow> bool" where
  "captures n (Grp m a) = (n = m \<or> captures n a)"
| "captures n (Seq a b) = (captures n a \<or> captures n b)"
| "captures n (Alt a b) = (captures n a \<and> captures n b)"
| "captures n r = False"

definition reaches :: "bool \<Rightarrow> (nat \<Rightarrow> bool) \<Rightarrow> mstate \<Rightarrow> mstate \<Rightarrow> bool" where
  "reaches strict ds s s' =
     ((\<exists>u. rest s = u @ rest s')
      \<and> (strict \<longrightarrow> length (rest s') < length (rest s))
      \<and> (\<forall>n. n \<in> fst ` set (caps s) \<or> ds n \<longrightarrow> n \<in> fst ` set (caps s')))"

definition sound :: "bool \<Rightarrow> (nat \<Rightarrow> bool) \<Rightarrow> (cont \<Rightarrow> cont) \<Rightarrow> bool" where
  "sound strict ds ma = (\<forall>k s e. ma k s = Some e \<longrightarrow> (\<exists>s'. reaches strict ds s s' \<and> k s' = Some e))"

definition good_match :: "rx \<Rightarrow> rmatch \<Rightarrow> bool" where
  "good_match r mt = ((consumes r \<longrightarrow> whole mt \<noteq> []) \<and> (\<forall>n. captures n r \<longrightarrow> group mt n \<noteq> None))"

text \<open>The quiz \<^verbatim>\<open>parseQuizResponse\<close> hands to \<^verbatim>\<open>validateQuiz\<close>: that of the first of the
  three formats, in the order JSON, markdown, structured text, that passes the test.\<close>

definition chosen_format :: "host \<Rightarrow> string \<Rightarrow> Quiz option" where
  "chosen_format h s =
     (case List.find accepted
             (map (\<lambda>r. case r of Inl e \<Rightarrow> None | Inr x \<Rightarrow> x)
                [parseJSONResponse h s, parseMarkdownResponse h s, parseStructuredResponse h s]) of
        Some x \<Rightarrow> x
      | None \<Rightarrow> None)"

text \<open>A host for the examples; none of them converts a number to a string.\<close>

definition example_host :: host where
  "example_host = \<lparr>now = ''2025-01-01T00:00:00.000Z'', numberToString = (\<lambda>n. ''0'')\<rparr>"

text \<open>A response with a fenced JSON quiz and a markdown question.\<close>

definition both_formats :: string where
  \<open>both_formats = ''```json
{"questions":[{"id":1,"text":"From JSON?"}]}
```
## Question 1
From markdown?''\<close>

text \<open>A markdown heading with nothing after it.\<close>

definition bare_heading :: string where
  "bare_heading = ''## Question 1''"

text \<open>Three JSON questions with the ids null, 5 and 5.\<close>

definition ids_null_5_5 :: string where
  \<open>ids_null_5_5 = ''```json
{"questions":[{"id":null,"text":"One?"},{"id":5,"text":"Two?"},{"id":5,"text":"Three?"}]}
```''\<close>




text \<open>A JSON quiz whose only question is a multiple-choice question with one option.\<close>

definition one_option :: string where
  \<open>one_option = ''```json
{"questions":[{"id":1,"type":"multiple_choice","text":"Pick one","options":["Only"],"correctAnswer":"Only"}]}
```''\<close>

text \<open>The evaluation payload with nothing but an overall score, and a fenced block that is
  not JSON.\<close>

definition only_overall :: string where
  \<open>only_overall = ''```json
{"scores":{"overall":7}}
```''\<close>


text \<open>The options \<^verbatim>\<open>{maxTokens: n}\<close>, with \<^verbatim>\<open>extractKeyTerms\<close> left out or given.\<close>

definition options_with :: "real \<Rightarrow> bool option \<Rightarrow> PreprocessingOptions" where
  "options_with n extract =
     \<lparr>maxTokens = Some n, preserveHeadings = None, shouldExtractTerms = extract,
      summarizeLongSections = None\<rparr>"

section \<open>Properties\<close>

subsection \<open>The control flow of the quiz parser\<close>

lemma try_catch_null: "try_catch b (\<lambda>e. Inr None) = Inr (case b of Inl e \<Rightarrow> None | Inr v \<Rightarrow> v)"
  by (simp add: try_catch_def split: sum.splits)

lemma bind_e_Inr_iff: "bind_e x f = Inr y \<longleftrightarrow> (\<exists>v. x = Inr v \<and> f v = Inr y)"
  by (cases x) (simp_all add: bind_e_def)

lemma bind_e_Inr [simp]: "bind_e (Inr v) f = f v"
  by (simp add: bind_e_def)

lemma bind_e_Inl [simp]: "bind_e (Inl e) f = Inl e"
  by (simp add: bind_e_def)

lemma parseJSONResponse_returns: "\<exists>x. parseJSONResponse h s = Inr x"
  by (simp add: parseJSONResponse_def try_catch_null)

lemma parseMarkdownResponse_returns: "\<exists>x. parseMarkdownResponse h s = Inr x"
  by (simp add: parseMarkdownResponse_def try_catch_null)

lemma parseStructuredResponse_returns: "\<exists>x. parseStructuredResponse h s = Inr x"
  by (simp add: parseStructuredResponse_def try_catch_null)

lemma quiz_of_parsed_no_error:
  assumes "quiz_of_parsed h p = Inr (Some q)"
  shows "error q = None"
proof (cases "get_prop p ''questions''")
  case None
  with assms show ?thesis by (simp add: quiz_of_parsed_def split: if_splits)
next
  case (Some v)
  show ?thesis
  proof (cases v)
    case (JArr qs)
    with Some assms show ?thesis
      by (auto simp: quiz_of_parsed_def bind_e_Inr_iff split: if_splits)
  qed (use Some assms in \<open>simp_all add: quiz_of_parsed_def split: if_splits\<close>)
qed

lemma parseJSONResponse_no_error:
  assumes "parseJSONResponse h s = Inr (Some q)"
  shows "error q = None"
proof -
  from assms have "parseJSONResponse_body h s = Inr (Some q)"
    by (simp add: parseJSONResponse_def try_catch_null split: sum.splits)
  then obtain p where "quiz_of_parsed h p = Inr (Some q)"
    by (auto simp: parseJSONResponse_body_def bind_e_Inr_iff split: option.splits)
  then show ?thesis by (rule quiz_of_parsed_no_error)
qed

lemma parseMarkdownResponse_no_error:
  assumes "parseMarkdownResponse h s = Inr (Some q)"
  shows "error q = None"
proof -
  from assms have "parseMarkdownResponse_body h s = Inr (Some q)"
    by (simp add: parseMarkdownResponse_def try_catch_null split: sum.splits)
  then show ?thesis
    unfolding parseMarkdownResponse_body_def Let_def
    by (auto simp: bind_e_Inr_iff split: if_splits)
qed

lemma parseStructuredResponse_no_error:
  assumes "parseStructuredResponse h s = Inr (Some q)"
  shows "error q = None"
proof -
  from assms have "parseStructuredResponse_body h s = Inr (Some q)"
    by (simp add: parseStructuredResponse_def try_catch_null split: sum.splits)
  then show ?thesis
    unfolding parseStructuredResponse_body_def Let_def
    by (auto simp: bind_e_Inr_iff split: if_splits)
qed

lemma parseQuizResponse_order:
  "\<exists>j m t. parseJSONResponse h s = Inr j \<and> parseMarkdownResponse h s = Inr m
     \<and> parseStructuredResponse h s = Inr t
     \<and> parseQuizResponse h s opts =
         Inr (if accepted j then validateQuiz (the j) opts
              else if accepted m then validateQuiz (the m) opts
              else if accepted t then validateQuiz (the t) opts
              else failed_quiz h)"
proof -
  obtain j m t where "parseJSONResponse h s = Inr j" "parseMarkdownResponse h s = Inr m"
    "parseStructuredResponse h s = Inr t"
    using parseJSONResponse_returns parseMarkdownResponse_returns parseStructuredResponse_returns
    by blast
  then show ?thesis
    by (simp add: parseQuizResponse_def accepted_def failed_quiz_def)
qed

lemma in_filtered:
  "x \<in> set (map the (filter (\<lambda>q. q \<noteq> None) (map f xs))) \<Longrightarrow> \<exists>y \<in> set xs. f y = Some x"
  by auto

lemma with_index_set: "(i, q) \<in> set (with_index xs) \<Longrightarrow> i < length xs \<and> q = xs ! i"
  by (auto simp: with_index_def in_set_zip)

lemma position_nonzero: "(of_nat i + 1 :: rat) \<noteq> 0"
proof -
  have "(of_nat i + 1 :: rat) = of_nat (Suc i)" by simp
  then show ?thesis by (simp only: of_nat_neq_0 not_False_eq_True)
qed

lemma validateQuestion_Some:
  assumes "validateQuestion re na i q = Some x"
  shows "\<exists>a. x = q\<lparr>q_id := (if q_id q = 0 then of_nat i + 1 else q_id q), q_correctAnswer := a\<rparr>"
    and "\<not> invalid_multiple_choice q"
    and "re \<longrightarrow> (\<exists>e. q_explanation q = Some e \<and> trim e \<noteq> [])"
proof -
  define q1 where "q1 = (if q_id q = 0 then q\<lparr>q_id := of_nat i + 1\<rparr> else q)"
  define q2 where "q2 = (if q_type q1 = true_false \<and> na
                      then q1\<lparr>q_correctAnswer :=
                             (if str_includes (toLowerCase (q_correctAnswer q1)) ''true''
                              then ''True'' else ''False'')\<rparr>
                      else q1)"
  have v: "validateQuestion re na i q =
     (if q_type q1 = multiple_choice \<and>
            (case q_options q1 of None \<Rightarrow> True | Some os \<Rightarrow> length os < 2)
      then None
      else if re \<and> (case q_explanation q2 of None \<Rightarrow> True | Some e \<Rightarrow> length (trim e) = 0)
      then None else Some q2)"
    by (simp add: validateQuestion_def Let_def q1_def q2_def)
  have t1: "q_type q1 = q_type q" "q_options q1 = q_options q" "q_explanation q1 = q_explanation q"
    by (simp_all add: q1_def)
  have t2: "q_explanation q2 = q_explanation q"
    by (simp add: q2_def t1)
  from assms v have mc: "\<not> (q_type q1 = multiple_choice \<and>
            (case q_options q1 of None \<Rightarrow> True | Some os \<Rightarrow> length os < 2))"
    by (auto split: if_splits)
  with assms v have ex: "\<not> (re \<and> (case q_explanation q2 of None \<Rightarrow> True | Some e \<Rightarrow> length (trim e) = 0))"
    and x: "x = q2"
    by (auto split: if_splits)
  show "\<not> invalid_multiple_choice q"
    using mc by (simp add: invalid_multiple_choice_def t1)
  show "re \<longrightarrow> (\<exists>e. q_explanation q = Some e \<and> trim e \<noteq> [])"
    using ex by (cases "q_explanation q") (simp_all add: t2)
  have "q1 = q\<lparr>q_id := (if q_id q = 0 then of_nat i + 1 else q_id q)\<rparr>"
    by (simp add: q1_def)
  moreover have "\<exists>a. q2 = q1\<lparr>q_correctAnswer := a\<rparr>"
  proof (cases "q_type q1 = true_false \<and> na")
    case True
    then have "q2 = q1\<lparr>q_correctAnswer :=
                             (if str_includes (toLowerCase (q_correctAnswer q1)) ''true''
                              then ''True'' else ''False'')\<rparr>"
      by (simp add: q2_def)
    then show ?thesis ..
  next
    case False
    then have "q2 = q1"
      unfolding q2_def by (rule if_not_P)
    then have "q2 = q1\<lparr>q_correctAnswer := q_correctAnswer q1\<rparr>"
      by simp
    then show ?thesis ..
  qed
  ultimately show "\<exists>a. x = q\<lparr>q_id := (if q_id q = 0 then of_nat i + 1 else q_id q), q_correctAnswer := a\<rparr>"
    using x by auto
qed

lemma validateQuestion_props:
  assumes "validateQuestion re na i q = Some x"
  shows "q_id x = (if q_id q = 0 then of_nat i + 1 else q_id q)"
    and "q_id x \<noteq> 0"
    and "q_type x = q_type q" and "q_options x = q_options q" and "q_text x = q_text q"
    and "q_explanation x = q_explanation q"
proof -
  from validateQuestion_Some(1)[OF assms] obtain a where
    x: "x = q\<lparr>q_id := (if q_id q = 0 then of_nat i + 1 else q_id q), q_correctAnswer := a\<rparr>"
    by blast
  show "q_id x = (if q_id q = 0 then of_nat i + 1 else q_id q)" by (simp add: x)
  then show "q_id x \<noteq> 0" using position_nonzero by simp
  show "q_type x = q_type q" "q_options x = q_options q" "q_text x = q_text q"
    "q_explanation x = q_explanation q"
    by (simp_all add: x)
qed

lemma validateQuestion_invalid:
  "invalid_multiple_choice q \<Longrightarrow> validateQuestion re na i q = None"
  by (auto simp: validateQuestion_def Let_def invalid_multiple_choice_def split: option.splits)

lemma validateQuiz_off:
  "\<not> opt_default True (validateQuestions opts) \<Longrightarrow> validateQuiz quiz opts = quiz"
  by (simp add: validateQuiz_def)

lemma validateQuiz_shape:
  assumes "opt_default True (validateQuestions opts)"
  shows "(questions (validateQuiz quiz opts) \<noteq> [] \<and> error (validateQuiz quiz opts) = None)
       \<or> (questions (validateQuiz quiz opts) = []
          \<and> error (validateQuiz quiz opts) = Some ''No valid questions found after validation'')"
  using assms by (simp add: validateQuiz_def Let_def)

lemma validateQuiz_member:
  assumes "opt_default True (validateQuestions opts)"
    and "x \<in> set (questions (validateQuiz quiz opts))"
  shows "\<exists>i < length (questions quiz).
           validateQuestion (opt_default False (requireExplanations opts))
             (opt_default True (normalizeAnswers opts)) i (questions quiz ! i) = Some x"
proof -
  define f where "f = (\<lambda>(index, q). validateQuestion (opt_default False (requireExplanations opts))
             (opt_default True (normalizeAnswers opts)) index q)"
  define vs where "vs = map the (filter (\<lambda>q. q \<noteq> None) (map f (with_index (questions quiz))))"
  have "questions (validateQuiz quiz opts) = (if length vs = 0 then [] else vs)"
    unfolding validateQuiz_def Let_def vs_def f_def using assms(1)
    by (simp del: map_map)
  with assms(2) have "x \<in> set vs"
    by (simp split: if_splits)
  then have "\<exists>y \<in> set (with_index (questions quiz)). f y = Some x"
    unfolding vs_def by (rule in_filtered)
  then obtain y where y: "y \<in> set (with_index (questions quiz))" and fy: "f y = Some x" ..
  obtain i q where yiq: "y = (i, q)" by (cases y)
  from y yiq have "i < length (questions quiz) \<and> q = questions quiz ! i"
    by (simp add: with_index_set)
  moreover from fy yiq have "validateQuestion (opt_default False (requireExplanations opts))
             (opt_default True (normalizeAnswers opts)) i q = Some x"
    by (simp add: f_def)
  ultimately show ?thesis by auto
qed

subsection \<open>Evaluating the examples\<close>

lemma both_formats_json:
  "parseJSONResponse example_host both_formats =
     Inr (Some \<lparr>questions = [\<lparr>q_id = 1, q_type = open_ended, q_text = ''From JSON?'',
                   q_options = None, q_correctAnswer = [], q_explanation = None\<rparr>],
                 metadata = [(''generatedAt'', JStr ''2025-01-01T00:00:00.000Z'')],
                 error = None\<rparr>)"
  by code_simp

lemma both_formats_markdown:
  "parseMarkdownResponse example_host both_formats =
     Inr (Some \<lparr>questions = [\<lparr>q_id = 1, q_type = open_ended, q_text = ''From markdown?'',
                   q_options = None, q_correctAnswer = [], q_explanation = None\<rparr>],
                 metadata = [(''generatedAt'', JStr ''2025-01-01T00:00:00.000Z'')],
                 error = None\<rparr>)"
  by code_simp

lemma bare_heading_parsed:
  "parseQuizResponse example_host bare_heading default_options =
     Inr \<lparr>questions = [\<lparr>q_id = 1, q_type = open_ended, q_text = [],
                   q_options = None, q_correctAnswer = [], q_explanation = None\<rparr>],
          metadata = [(''generatedAt'', JStr ''2025-01-01T00:00:00.000Z'')],
          error = None\<rparr>"
  by code_simp

lemma ids_parsed:
  "parseQuizResponse example_host ids_null_5_5 default_options =
     Inr \<lparr>questions =
            [\<lparr>q_id = 1, q_type = open_ended, q_text = ''One?'',
               q_options = None, q_correctAnswer = [], q_explanation = None\<rparr>,
             \<lparr>q_id = 5, q_type = open_ended, q_text = ''Two?'',
               q_options = None, q_correctAnswer = [], q_explanation = None\<rparr>,
             \<lparr>q_id = 5, q_type = open_ended, q_text = ''Three?'',
               q_options = None, q_correctAnswer = [], q_explanation = None\<rparr>],
          metadata = [(''generatedAt'', JStr ''2025-01-01T00:00:00.000Z'')],
          error = None\<rparr>"
  by code_simp

subsection \<open>The shape of the quiz returned\<close>

lemma accepted_Some: "accepted j \<Longrightarrow> \<exists>q. j = Some q \<and> questions q \<noteq> []"
  by (cases j) (simp_all add: accepted_def)

lemma validated_shape:
  assumes "questions q \<noteq> []" and "error q = None"
  shows "(questions (validateQuiz q opts) \<noteq> [] \<and> error (validateQuiz q opts) = None)
       \<or> (questions (validateQuiz q opts) = []
          \<and> error (validateQuiz q opts) = Some ''No valid questions found after validation'')"
proof (cases "opt_default True (validateQuestions opts)")
  case True
  then show ?thesis by (rule validateQuiz_shape)
next
  case False
  then have "validateQuiz q opts = q" by (rule validateQuiz_off)
  with assms show ?thesis by simp
qed

lemma validated_questions:
  assumes "opt_default True (validateQuestions opts)"
    and "x \<in> set (questions (validateQuiz q opts))"
  shows "\<not> invalid_multiple_choice x \<and> q_id x \<noteq> 0
       \<and> (opt_default False (requireExplanations opts) \<longrightarrow>
            (\<exists>e. q_explanation x = Some e \<and> trim e \<noteq> []))"
proof -
  from validateQuiz_member[OF assms] obtain i where
    v: "validateQuestion (opt_default False (requireExplanations opts))
          (opt_default True (normalizeAnswers opts)) i (questions q ! i) = Some x"
    by blast
  have "\<not> invalid_multiple_choice (questions q ! i)"
    using validateQuestion_Some(2)[OF v] .
  then have "\<not> invalid_multiple_choice x"
    by (simp add: invalid_multiple_choice_def validateQuestion_props(3,4)[OF v])
  moreover have "q_id x \<noteq> 0"
    using validateQuestion_props(2)[OF v] .
  moreover have "opt_default False (requireExplanations opts) \<longrightarrow>
            (\<exists>e. q_explanation x = Some e \<and> trim e \<noteq> [])"
    using validateQuestion_Some(3)[OF v] by (simp add: validateQuestion_props(6)[OF v])
  ultimately show ?thesis by simp
qed

lemma parseQuizResponse_cases:
  obtains q where "questions q \<noteq> []" and "error q = None"
      and "parseQuizResponse h s opts = Inr (validateQuiz q opts)"
  | "parseQuizResponse h s opts = Inr (failed_quiz h)"
proof -
  obtain j m t where j: "parseJSONResponse h s = Inr j" and m: "parseMarkdownResponse h s = Inr m"
    and t: "parseStructuredResponse h s = Inr t"
    and r: "parseQuizResponse h s opts =
         Inr (if accepted j then validateQuiz (the j) opts
              else if accepted m then validateQuiz (the m) opts
              else if accepted t then validateQuiz (the t) opts
              else failed_quiz h)"
    using parseQuizResponse_order by blast
  consider "accepted j" | "\<not> accepted j" "accepted m"
    | "\<not> accepted j" "\<not> accepted m" "accepted t"
    | "\<not> accepted j" "\<not> accepted m" "\<not> accepted t"
    by blast
  then show thesis
  proof cases
    case 1
    then obtain q where q: "j = Some q" "questions q \<noteq> []" using accepted_Some by blast
    with j have "error q = None" using parseJSONResponse_no_error by blast
    with q 1 r that(1) show thesis by simp
  next
    case 2
    then obtain q where q: "m = Some q" "questions q \<noteq> []" using accepted_Some by blast
    with m have "error q = None" using parseMarkdownResponse_no_error by blast
    with q 2 r that(1) show thesis by simp
  next
    case 3
    then obtain q where q: "t = Some q" "questions q \<noteq> []" using accepted_Some by blast
    with t have "error q = None" using parseStructuredResponse_no_error by blast
    with q 3 r that(1) show thesis by simp
  next
    case 4
    with r that(2) show thesis by simp
  qed
qed

text \<open>C2, as the code has it. For every response and every value of the options,
  \<^verbatim>\<open>parseQuizResponse\<close> returns a quiz that has either at least one question and no error, or
  no question and an error that is not empty. When \<^verbatim>\<open>validateQuestions\<close> is not switched off,
  no returned multiple-choice question has fewer than two options, no returned id is 0, and
  with \<^verbatim>\<open>requireExplanations\<close> every returned question has an explanation that is not
  blank.\<close>

theorem quiz_shape:
  "\<exists>q. parseQuizResponse h s opts = Inr q
     \<and> ((questions q \<noteq> [] \<and> error q = None)
        \<or> (questions q = [] \<and> (\<exists>e. error q = Some e \<and> e \<noteq> [])))
     \<and> (opt_default True (validateQuestions opts) \<longrightarrow>
          (\<forall>x \<in> set (questions q).
             \<not> invalid_multiple_choice x \<and> q_id x \<noteq> 0
             \<and> (opt_default False (requireExplanations opts) \<longrightarrow>
                  (\<exists>e. q_explanation x = Some e \<and> trim e \<noteq> []))))"
proof (rule parseQuizResponse_cases[of h s opts])
  fix q
  assume q: "questions q \<noteq> []" "error q = None"
    and r: "parseQuizResponse h s opts = Inr (validateQuiz q opts)"
  have "(questions (validateQuiz q opts) \<noteq> [] \<and> error (validateQuiz q opts) = None)
       \<or> (questions (validateQuiz q opts) = []
          \<and> (\<exists>e. error (validateQuiz q opts) = Some e \<and> e \<noteq> []))"
    using validated_shape[OF q, of opts] by auto
  then show ?thesis
    using r validated_questions[of opts _ q] by blast
next
  assume "parseQuizResponse h s opts = Inr (failed_quiz h)"
  then show ?thesis
    by (simp add: failed_quiz_def)
qed

lemma parseQuizResponse_chosen:
  "parseQuizResponse h s opts =
     Inr (case chosen_format h s of Some q \<Rightarrow> validateQuiz q opts | None \<Rightarrow> failed_quiz h)"
proof -
  obtain j m t where j: "parseJSONResponse h s = Inr j" and m: "parseMarkdownResponse h s = Inr m"
    and t: "parseStructuredResponse h s = Inr t"
    and r: "parseQuizResponse h s opts =
         Inr (if accepted j then validateQuiz (the j) opts
              else if accepted m then validateQuiz (the m) opts
              else if accepted t then validateQuiz (the t) opts
              else failed_quiz h)"
    using parseQuizResponse_order by blast
  have c: "chosen_format h s = (if accepted j then j else if accepted m then m
                                else if accepted t then t else None)"
    by (simp add: chosen_format_def j m t)
  show ?thesis
    unfolding r c by (auto dest: accepted_Some)
qed

text \<open>C5. When the fenced JSON block gives at least one question, \<^verbatim>\<open>parseQuizResponse\<close>
  returns the validated JSON quiz, whatever the markdown sections give; in general it
  takes the first of JSON, markdown and structured text, in this order, that gives one or
  more questions, and the failure quiz when none does.\<close>

theorem format_priority:
  "(parseJSONResponse h s = Inr (Some jq) \<and> questions jq \<noteq> []
      \<and> parseMarkdownResponse h s = Inr (Some mq) \<and> questions mq \<noteq> []
      \<longrightarrow> parseQuizResponse h s opts = Inr (validateQuiz jq opts))
   \<and> (\<exists>j m t. parseJSONResponse h s = Inr j \<and> parseMarkdownResponse h s = Inr m
         \<and> parseStructuredResponse h s = Inr t
         \<and> parseQuizResponse h s opts =
             Inr (if accepted j then validateQuiz (the j) opts
                  else if accepted m then validateQuiz (the m) opts
                  else if accepted t then validateQuiz (the t) opts
                  else failed_quiz h))"
proof (intro conjI impI)
  assume a: "parseJSONResponse h s = Inr (Some jq) \<and> questions jq \<noteq> []
      \<and> parseMarkdownResponse h s = Inr (Some mq) \<and> questions mq \<noteq> []"
  then show "parseQuizResponse h s opts = Inr (validateQuiz jq opts)"
    by (simp add: parseQuizResponse_def)
next
  show "\<exists>j m t. parseJSONResponse h s = Inr j \<and> parseMarkdownResponse h s = Inr m
         \<and> parseStructuredResponse h s = Inr t
         \<and> parseQuizResponse h s opts =
             Inr (if accepted j then validateQuiz (the j) opts
                  else if accepted m then validateQuiz (the m) opts
                  else if accepted t then validateQuiz (the t) opts
                  else failed_quiz h)"
    by (rule parseQuizResponse_order)
qed

text \<open>The response \<open>both_formats\<close> has a JSON question and a markdown
  question; the JSON one is returned.\<close>

theorem format_priority_witness:
  "parseJSONResponse example_host both_formats =
     Inr (Some \<lparr>questions = [\<lparr>q_id = 1, q_type = open_ended, q_text = ''From JSON?'',
                   q_options = None, q_correctAnswer = [], q_explanation = None\<rparr>],
                 metadata = [(''generatedAt'', JStr ''2025-01-01T00:00:00.000Z'')],
                 error = None\<rparr>)
   \<and> parseMarkdownResponse example_host both_formats =
     Inr (Some \<lparr>questions = [\<lparr>q_id = 1, q_type = open_ended, q_text = ''From markdown?'',
                   q_options = None, q_correctAnswer = [], q_explanation = None\<rparr>],
                 metadata = [(''generatedAt'', JStr ''2025-01-01T00:00:00.000Z'')],
                 error = None\<rparr>)
   \<and> parseQuizResponse example_host both_formats default_options =
     Inr (validateQuiz
            \<lparr>questions = [\<lparr>q_id = 1, q_type = open_ended, q_text = ''From JSON?'',
                   q_options = None, q_correctAnswer = [], q_explanation = None\<rparr>],
             metadata = [(''generatedAt'', JStr ''2025-01-01T00:00:00.000Z'')],
             error = None\<rparr> default_options)"
proof -
  let ?J = "\<lparr>questions = [\<lparr>q_id = 1, q_type = open_ended, q_text = ''From JSON?'',
                   q_options = None, q_correctAnswer = [], q_explanation = None\<rparr>],
             metadata = [(''generatedAt'', JStr ''2025-01-01T00:00:00.000Z'')],
             error = None\<rparr>"
  let ?M = "\<lparr>questions = [\<lparr>q_id = 1, q_type = open_ended, q_text = ''From markdown?'',
                   q_options = None, q_correctAnswer = [], q_explanation = None\<rparr>],
             metadata = [(''generatedAt'', JStr ''2025-01-01T00:00:00.000Z'')],
             error = None\<rparr>"
  have "parseQuizResponse example_host both_formats default_options
          = Inr (validateQuiz ?J default_options)"
    using format_priority [of example_host both_formats ?J ?M default_options]
      both_formats_json both_formats_markdown
    by simp
  then show ?thesis
    using both_formats_json both_formats_markdown by simp
qed

text \<open>The quiz of the bare heading: one question, no error.\<close>

theorem quiz_shape_witness:
  "opt_default True (validateQuestions default_options)
   \<and> (\<exists>q. parseQuizResponse example_host bare_heading default_options = Inr q
        \<and> questions q \<noteq> [] \<and> error q = None
        \<and> (\<forall>x \<in> set (questions q). \<not> invalid_multiple_choice x \<and> q_id x \<noteq> 0))"
  using quiz_shape [of example_host bare_heading default_options] bare_heading_parsed
  by (auto simp: default_options_def opt_default_def)

text \<open>C2 as stated fails on the bare heading: the markdown parser takes the empty
  section for a question, nothing in the validation looks at the text, and the quiz
  returned has a question with an empty text and no error.\<close>

theorem quiz_empty_text_counterexample:
  "\<exists>q. parseQuizResponse example_host bare_heading default_options = Inr q
     \<and> \<not> (questions q \<noteq> [] \<and> (\<forall>x \<in> set (questions q). trim (q_text x) \<noteq> []) \<and> error q = None)
     \<and> \<not> (questions q = [] \<and> error q \<noteq> None)"
  by (simp add: bare_heading_parsed trim_def)

subsection \<open>Ids\<close>

lemma normalizeQuestion_Some:
  assumes "normalizeQuestion h j = Inr (Some q)"
  shows "\<exists>txt ty. q = normalized_question h j txt ty"
proof (cases j)
  case (JObj kvs)
  show ?thesis
  proof (cases "get_prop j ''text''")
    case None
    with JObj assms show ?thesis by (simp add: normalizeQuestion_def)
  next
    case (Some v)
    show ?thesis
    proof (cases v)
      case (JStr tx)
      with Some JObj assms show ?thesis
        by (auto simp: normalizeQuestion_def bind_e_Inr_iff split: if_splits)
    qed (use Some JObj assms in \<open>simp_all add: normalizeQuestion_def\<close>)
  qed
qed (use assms in \<open>simp_all add: normalizeQuestion_def\<close>)

text \<open>C4, as the code has it. \<^verbatim>\<open>normalizeQuestion\<close> gives the id 0 to a question whose id
  is not a number; \<^verbatim>\<open>validateQuiz\<close> replaces an id 0 by the position of the question in
  the parsed list, counted from 1, and keeps every other id. So no returned id is 0, and
  every returned question is a parsed question with its id treated so.\<close>

theorem ids_after_validation:
  assumes "opt_default True (validateQuestions opts)"
  shows "(\<forall>x \<in> set (questions (validateQuiz quiz opts)).
            q_id x \<noteq> 0
            \<and> (\<exists>i < length (questions quiz). \<exists>a.
                  x = (questions quiz ! i)
                        \<lparr>q_id := (if q_id (questions quiz ! i) = 0 then of_nat i + 1
                                  else q_id (questions quiz ! i)),
                         q_correctAnswer := a\<rparr>))
       \<and> (normalizeQuestion h j = Inr (Some q) \<longrightarrow>
            q_id q = (case get_prop j ''id'' of Some (JNum n) \<Rightarrow> n | _ \<Rightarrow> 0))"
proof (intro conjI ballI impI)
  fix x
  assume x: "x \<in> set (questions (validateQuiz quiz opts))"
  from validateQuiz_member[OF assms x] obtain i where
    i: "i < length (questions quiz)" and
    v: "validateQuestion (opt_default False (requireExplanations opts))
          (opt_default True (normalizeAnswers opts)) i (questions quiz ! i) = Some x"
    by blast
  show "q_id x \<noteq> 0"
    using validateQuestion_props(2)[OF v] .
  show "\<exists>i < length (questions quiz). \<exists>a.
                  x = (questions quiz ! i)
                        \<lparr>q_id := (if q_id (questions quiz ! i) = 0 then of_nat i + 1
                                  else q_id (questions quiz ! i)),
                         q_correctAnswer := a\<rparr>"
    using i validateQuestion_Some(1)[OF v] by blast
next
  assume "normalizeQuestion h j = Inr (Some q)"
  then obtain tx ty where "q = normalized_question h j tx ty"
    using normalizeQuestion_Some by blast
  then show "q_id q = (case get_prop j ''id'' of Some (JNum n) \<Rightarrow> n | _ \<Rightarrow> 0)"
    by (simp add: normalized_question_def)
qed

lemma null_id_normalized:
  "normalizeQuestion example_host (JObj [(''id'', JNull), (''text'', JStr ''One?'')]) =
     Inr (Some \<lparr>q_id = 0, q_type = open_ended, q_text = ''One?'',
                 q_options = None, q_correctAnswer = [], q_explanation = None\<rparr>)"
  by code_simp

lemma null_id_validated:
  "validateQuiz \<lparr>questions = [\<lparr>q_id = 0, q_type = open_ended, q_text = ''One?'',
                 q_options = None, q_correctAnswer = [], q_explanation = None\<rparr>],
                 metadata = [], error = None\<rparr> default_options =
     \<lparr>questions = [\<lparr>q_id = 1, q_type = open_ended, q_text = ''One?'',
                 q_options = None, q_correctAnswer = [], q_explanation = None\<rparr>],
                 metadata = [], error = None\<rparr>"
  by code_simp

text \<open>A question with the id \<^verbatim>\<open>null\<close>, normalised and validated.\<close>

theorem ids_after_validation_witness:
  "opt_default True (validateQuestions default_options)
   \<and> normalizeQuestion example_host (JObj [(''id'', JNull), (''text'', JStr ''One?'')]) =
       Inr (Some \<lparr>q_id = 0, q_type = open_ended, q_text = ''One?'',
                   q_options = None, q_correctAnswer = [], q_explanation = None\<rparr>)
   \<and> list_all (\<lambda>x. q_id x \<noteq> 0)
       (questions (validateQuiz
          \<lparr>questions = [\<lparr>q_id = 0, q_type = open_ended, q_text = ''One?'',
                 q_options = None, q_correctAnswer = [], q_explanation = None\<rparr>],
           metadata = [], error = None\<rparr> default_options))
   \<and> map q_id (questions (validateQuiz
          \<lparr>questions = [\<lparr>q_id = 0, q_type = open_ended, q_text = ''One?'',
                 q_options = None, q_correctAnswer = [], q_explanation = None\<rparr>],
           metadata = [], error = None\<rparr> default_options)) = [1]"
proof -
  let ?Q = "\<lparr>questions = [\<lparr>q_id = 0, q_type = open_ended, q_text = ''One?'',
                 q_options = None, q_correctAnswer = [], q_explanation = None\<rparr>],
           metadata = [], error = None\<rparr>"
  have on: "opt_default True (validateQuestions default_options)"
    by (simp add: default_options_def opt_default_def)
  from ids_after_validation [OF on, of ?Q example_host JNull]
  have "\<forall>x \<in> set (questions (validateQuiz ?Q default_options)). q_id x \<noteq> 0"
    by blast
  then have "list_all (\<lambda>x. q_id x \<noteq> 0) (questions (validateQuiz ?Q default_options))"
    by (simp only: list_all_iff)
  with on null_id_normalized null_id_validated show ?thesis
    by simp
qed

text \<open>C4 as stated fails on its own example: the ids null, 5, 5 become 1, 5, 5.\<close>

theorem ids_counterexample:
  "\<exists>q. parseQuizResponse example_host ids_null_5_5 default_options = Inr q
     \<and> map q_id (questions q) = [1, 5, 5] \<and> map q_id (questions q) \<noteq> [1, 2, 3]"
  by (simp add: ids_parsed)

subsection \<open>The floor of two options\<close>

lemma validateQuiz_all_dropped:
  assumes "opt_default True (validateQuestions opts)"
    and "questions (validateQuiz quiz opts) = []"
  shows "validateQuiz quiz opts =
           \<lparr>questions = [], metadata = metadata quiz,
            error = Some ''No valid questions found after validation''\<rparr>"
  using assms by (simp add: validateQuiz_def Let_def split: if_splits)

lemma validateQuiz_all_invalid:
  assumes "opt_default True (validateQuestions opts)"
    and "\<forall>q \<in> set (questions quiz). invalid_multiple_choice q"
  shows "questions (validateQuiz quiz opts) = []"
proof (rule ccontr)
  assume "questions (validateQuiz quiz opts) \<noteq> []"
  then obtain x where "x \<in> set (questions (validateQuiz quiz opts))"
    by (cases "questions (validateQuiz quiz opts)") auto
  from validateQuiz_member[OF assms(1) this] obtain i where
    i: "i < length (questions quiz)" and
    v: "validateQuestion (opt_default False (requireExplanations opts))
          (opt_default True (normalizeAnswers opts)) i (questions quiz ! i) = Some x"
    by blast
  from i assms(2) have "invalid_multiple_choice (questions quiz ! i)"
    by simp
  with validateQuestion_Some(2)[OF v] show False
    by simp
qed

text \<open>C7. With \<^verbatim>\<open>validateQuestions\<close> not switched off: the callback of the validation
  returns \<^verbatim>\<open>null\<close> for a multiple-choice question with no options or fewer than two;
  every question returned comes from a parsed question that is not such a one; and when no
  question is left, \<^verbatim>\<open>parseQuizResponse\<close> returns no questions, the metadata of the parsed
  quiz, and the error \<^verbatim>\<open>No valid questions found after validation\<close>.\<close>

theorem multiple_choice_floor:
  assumes "opt_default True (validateQuestions opts)"
  shows "(invalid_multiple_choice q \<longrightarrow> validateQuestion re na i q = None)
       \<and> (\<forall>x \<in> set (questions (validateQuiz quiz opts)).
             \<not> invalid_multiple_choice x
             \<and> (\<exists>k < length (questions quiz). \<exists>n a.
                   \<not> invalid_multiple_choice (questions quiz ! k)
                   \<and> x = (questions quiz ! k)\<lparr>q_id := n, q_correctAnswer := a\<rparr>))
       \<and> ((\<forall>p \<in> set (questions quiz). invalid_multiple_choice p) \<longrightarrow>
             validateQuiz quiz opts =
               \<lparr>questions = [], metadata = metadata quiz,
                error = Some ''No valid questions found after validation''\<rparr>)
       \<and> (chosen_format h s = Some quiz \<and> questions (validateQuiz quiz opts) = [] \<longrightarrow>
             parseQuizResponse h s opts =
               Inr \<lparr>questions = [], metadata = metadata quiz,
                    error = Some ''No valid questions found after validation''\<rparr>)"
proof (intro conjI impI ballI)
  assume "invalid_multiple_choice q"
  then show "validateQuestion re na i q = None"
    by (rule validateQuestion_invalid)
next
  fix x
  assume x: "x \<in> set (questions (validateQuiz quiz opts))"
  show "\<not> invalid_multiple_choice x"
    using validated_questions[OF assms x] by simp
  from validateQuiz_member[OF assms x] obtain k where
    k: "k < length (questions quiz)" and
    v: "validateQuestion (opt_default False (requireExplanations opts))
          (opt_default True (normalizeAnswers opts)) k (questions quiz ! k) = Some x"
    by blast
  show "\<exists>k < length (questions quiz). \<exists>n a.
                   \<not> invalid_multiple_choice (questions quiz ! k)
                   \<and> x = (questions quiz ! k)\<lparr>q_id := n, q_correctAnswer := a\<rparr>"
    using k validateQuestion_Some(1,2)[OF v] by blast
next
  assume "\<forall>p \<in> set (questions quiz). invalid_multiple_choice p"
  then have "questions (validateQuiz quiz opts) = []"
    using validateQuiz_all_invalid[OF assms] by blast
  then show "validateQuiz quiz opts =
               \<lparr>questions = [], metadata = metadata quiz,
                error = Some ''No valid questions found after validation''\<rparr>"
    by (rule validateQuiz_all_dropped[OF assms])
next
  assume a: "chosen_format h s = Some quiz \<and> questions (validateQuiz quiz opts) = []"
  then have "validateQuiz quiz opts =
               \<lparr>questions = [], metadata = metadata quiz,
                error = Some ''No valid questions found after validation''\<rparr>"
    using validateQuiz_all_dropped[OF assms] by blast
  with a show "parseQuizResponse h s opts =
               Inr \<lparr>questions = [], metadata = metadata quiz,
                    error = Some ''No valid questions found after validation''\<rparr>"
    by (simp add: parseQuizResponse_chosen)
qed

lemma one_option_chosen:
  "chosen_format example_host one_option =
     Some \<lparr>questions = [\<lparr>q_id = 1, q_type = multiple_choice, q_text = ''Pick one'',
                 q_options = Some [''Only''], q_correctAnswer = ''Only'', q_explanation = None\<rparr>],
           metadata = [(''generatedAt'', JStr ''2025-01-01T00:00:00.000Z'')], error = None\<rparr>"
  by code_simp

text \<open>The quiz whose only question is a multiple-choice question with one
  option.\<close>

theorem multiple_choice_floor_witness:
  "opt_default True (validateQuestions default_options)
   \<and> invalid_multiple_choice \<lparr>q_id = 1, q_type = multiple_choice, q_text = ''Pick one'',
        q_options = Some [''Only''], q_correctAnswer = ''Only'', q_explanation = None\<rparr>
   \<and> chosen_format example_host one_option =
        Some \<lparr>questions = [\<lparr>q_id = 1, q_type = multiple_choice, q_text = ''Pick one'',
                 q_options = Some [''Only''], q_correctAnswer = ''Only'', q_explanation = None\<rparr>],
           metadata = [(''generatedAt'', JStr ''2025-01-01T00:00:00.000Z'')], error = None\<rparr>
   \<and> parseQuizResponse example_host one_option default_options =
        Inr \<lparr>questions = [],
             metadata = [(''generatedAt'', JStr ''2025-01-01T00:00:00.000Z'')],
             error = Some ''No valid questions found after validation''\<rparr>"
proof -
  let ?q = "\<lparr>q_id = 1, q_type = multiple_choice, q_text = ''Pick one'',
        q_options = Some [''Only''], q_correctAnswer = ''Only'', q_explanation = None\<rparr>"
  let ?Q = "\<lparr>questions = [?q],
           metadata = [(''generatedAt'', JStr ''2025-01-01T00:00:00.000Z'')], error = None\<rparr>"
  have on: "opt_default True (validateQuestions default_options)"
    by (simp add: default_options_def opt_default_def)
  have inv: "invalid_multiple_choice ?q"
    by (simp add: invalid_multiple_choice_def)
  note m = multiple_choice_floor [OF on, of ?q False True 0 ?Q example_host one_option]
  from m inv have "validateQuiz ?Q default_options =
      \<lparr>questions = [], metadata = metadata ?Q,
       error = Some ''No valid questions found after validation''\<rparr>"
    by simp
  with m one_option_chosen have "parseQuizResponse example_host one_option default_options =
      Inr \<lparr>questions = [], metadata = metadata ?Q,
           error = Some ''No valid questions found after validation''\<rparr>"
    by simp
  with on inv one_option_chosen show ?thesis
    by simp
qed

subsection \<open>What a match of a pattern gives\<close>

lemma reaches_refl: "reaches False (\<lambda>n. False) s s"
  by (simp add: reaches_def)

lemma reaches_weaken:
  "reaches st ds s s' \<Longrightarrow> (st' \<longrightarrow> st) \<Longrightarrow> (\<forall>n. ds' n \<longrightarrow> ds n) \<Longrightarrow> reaches st' ds' s s'"
  by (auto simp: reaches_def)

lemma reaches_trans:
  "reaches st1 ds1 s s1 \<Longrightarrow> reaches st2 ds2 s1 s2 \<Longrightarrow>
   reaches (st1 \<or> st2) (\<lambda>n. ds1 n \<or> ds2 n) s s2"
  by (auto simp: reaches_def)

lemma soundI:
  "(\<And>k s e. ma k s = Some e \<Longrightarrow> \<exists>s'. reaches strict ds s s' \<and> k s' = Some e) \<Longrightarrow> sound strict ds ma"
  by (simp add: sound_def)

lemma soundD:
  "sound strict ds ma \<Longrightarrow> ma k s = Some e \<Longrightarrow> \<exists>s'. reaches strict ds s s' \<and> k s' = Some e"
  by (simp add: sound_def)

lemma star_g_sound:
  assumes "sound st ds ma"
  shows "star_g ma fuel k s = Some e \<Longrightarrow> \<exists>s'. reaches False (\<lambda>n. False) s s' \<and> k s' = Some e"
proof (induction fuel arbitrary: s)
  case Nil
  then show ?case using reaches_refl by auto
next
  case (Cons c fuel)
  let ?k = "\<lambda>s'. if length (rest s') < length (rest s) then star_g ma fuel k s' else None"
  show ?case
  proof (cases "ma ?k s")
    case None
    with Cons.prems have "k s = Some e" by simp
    then show ?thesis using reaches_refl by auto
  next
    case (Some r)
    with Cons.prems have "ma ?k s = Some e" by simp
    from soundD[OF assms this] obtain s1 where
      s1: "reaches st ds s s1" and k1: "?k s1 = Some e" by blast
    from k1 have "star_g ma fuel k s1 = Some e" by (simp split: if_splits)
    from Cons.IH[OF this] obtain s2 where
      s2: "reaches False (\<lambda>n. False) s1 s2" and k2: "k s2 = Some e" by blast
    from reaches_trans[OF s1 s2] have "reaches False (\<lambda>n. False) s s2"
      by (rule reaches_weaken) simp_all
    with k2 show ?thesis by blast
  qed
qed

lemma star_l_sound:
  assumes "sound st ds ma"
  shows "star_l ma fuel k s = Some e \<Longrightarrow> \<exists>s'. reaches False (\<lambda>n. False) s s' \<and> k s' = Some e"
proof (induction fuel arbitrary: s)
  case Nil
  then show ?case using reaches_refl by auto
next
  case (Cons c fuel)
  let ?k = "\<lambda>s'. if length (rest s') < length (rest s) then star_l ma fuel k s' else None"
  show ?case
  proof (cases "k s")
    case (Some r)
    with Cons.prems have "k s = Some e" by simp
    then show ?thesis using reaches_refl by auto
  next
    case None
    with Cons.prems have "ma ?k s = Some e" by simp
    from soundD[OF assms this] obtain s1 where
      s1: "reaches st ds s s1" and k1: "?k s1 = Some e" by blast
    from k1 have "star_l ma fuel k s1 = Some e" by (simp split: if_splits)
    from Cons.IH[OF this] obtain s2 where
      s2: "reaches False (\<lambda>n. False) s1 s2" and k2: "k s2 = Some e" by blast
    from reaches_trans[OF s1 s2] have "reaches False (\<lambda>n. False) s s2"
      by (rule reaches_weaken) simp_all
    with k2 show ?thesis by blast
  qed
qed

lemma rx_m_sound: "sound (consumes r) (\<lambda>n. captures n r) (rx_m r)"
proof (induction r)
  case Eps
  show ?case by (rule soundI) (use reaches_refl in auto)
next
  case (Chr p)
  show ?case
  proof (rule soundI)
    fix k s e
    assume a: "rx_m (Chr p) k s = Some e"
    then obtain c cs where r: "rest s = c # cs" by (cases "rest s") auto
    with a have "k (MState (Some c) cs (caps s)) = Some e" by (simp split: if_splits)
    moreover have "reaches (consumes (Chr p)) (\<lambda>n. captures n (Chr p)) s (MState (Some c) cs (caps s))"
      using r by (simp add: reaches_def)
    ultimately show "\<exists>s'. reaches (consumes (Chr p)) (\<lambda>n. captures n (Chr p)) s s' \<and> k s' = Some e"
      by blast
  qed
next
  case (Seq a b)
  show ?case
  proof (rule soundI)
    fix k s e
    assume "rx_m (Seq a b) k s = Some e"
    then have "rx_m a (rx_m b k) s = Some e" by simp
    from soundD[OF Seq.IH(1) this] obtain s1 where
      s1: "reaches (consumes a) (\<lambda>n. captures n a) s s1" and k1: "rx_m b k s1 = Some e" by blast
    from soundD[OF Seq.IH(2) k1] obtain s2 where
      s2: "reaches (consumes b) (\<lambda>n. captures n b) s1 s2" and k2: "k s2 = Some e" by blast
    from reaches_trans[OF s1 s2]
    have "reaches (consumes (Seq a b)) (\<lambda>n. captures n (Seq a b)) s s2" by simp
    with k2 show "\<exists>s'. reaches (consumes (Seq a b)) (\<lambda>n. captures n (Seq a b)) s s' \<and> k s' = Some e"
      by blast
  qed
next
  case (Alt a b)
  show ?case
  proof (rule soundI)
    fix k s e
    assume m: "rx_m (Alt a b) k s = Some e"
    show "\<exists>s'. reaches (consumes (Alt a b)) (\<lambda>n. captures n (Alt a b)) s s' \<and> k s' = Some e"
    proof (cases "rx_m a k s")
      case (Some r)
      with m have "rx_m a k s = Some e" by simp
      from soundD[OF Alt.IH(1) this] obtain s1 where
        r1: "reaches (consumes a) (\<lambda>n. captures n a) s s1" and k1: "k s1 = Some e" by blast
      from r1 have "reaches (consumes (Alt a b)) (\<lambda>n. captures n (Alt a b)) s s1"
        by (rule reaches_weaken) simp_all
      with k1 show ?thesis by blast
    next
      case None
      with m have "rx_m b k s = Some e" by simp
      from soundD[OF Alt.IH(2) this] obtain s1 where
        r1: "reaches (consumes b) (\<lambda>n. captures n b) s s1" and k1: "k s1 = Some e" by blast
      from r1 have "reaches (consumes (Alt a b)) (\<lambda>n. captures n (Alt a b)) s s1"
        by (rule reaches_weaken) simp_all
      with k1 show ?thesis by blast
    qed
  qed
next
  case (Star a)
  show ?case
    by (rule soundI) (use star_g_sound[OF Star.IH] in simp)
next
  case (StarL a)
  show ?case
    by (rule soundI) (use star_l_sound[OF StarL.IH] in simp)
next
  case (Grp n a)
  show ?case
  proof (rule soundI)
    fix k :: cont and s e
    let ?k = "\<lambda>s'. k (MState (prev s') (rest s')
        ((n, take (length (rest s) - length (rest s')) (rest s)) # caps s'))"
    assume "rx_m (Grp n a) k s = Some e"
    then have "rx_m a ?k s = Some e" by simp
    from soundD[OF Grp.IH this] obtain s1 where
      s1: "reaches (consumes a) (\<lambda>n. captures n a) s s1" and k1: "?k s1 = Some e" by blast
    let ?s2 = "MState (prev s1) (rest s1)
        ((n, take (length (rest s) - length (rest s1)) (rest s)) # caps s1)"
    have "reaches (consumes (Grp n a)) (\<lambda>m. captures m (Grp n a)) s ?s2"
      using s1 by (auto simp: reaches_def)
    with k1 show "\<exists>s'. reaches (consumes (Grp n a)) (\<lambda>m. captures m (Grp n a)) s s' \<and> k s' = Some e"
      by blast
  qed
next
  case (Ahead a)
  show ?case
  proof (rule soundI)
    fix k s e
    assume m: "rx_m (Ahead a) k s = Some e"
    then obtain s1 where a1: "rx_m a Some s = Some s1"
      by (cases "rx_m a Some s") auto
    with m have k1: "k (MState (prev s) (rest s) (caps s1)) = Some e" by simp
    from soundD[OF Ahead.IH a1] have "reaches (consumes a) (\<lambda>n. captures n a) s s1" by auto
    then have "reaches (consumes (Ahead a)) (\<lambda>n. captures n (Ahead a)) s
        (MState (prev s) (rest s) (caps s1))"
      by (auto simp: reaches_def)
    with k1 show "\<exists>s'. reaches (consumes (Ahead a)) (\<lambda>n. captures n (Ahead a)) s s' \<and> k s' = Some e"
      by blast
  qed
next
  case (NAhead a)
  show ?case
    by (rule soundI) (use reaches_refl in \<open>auto split: option.splits\<close>)
next
  case Bol
  show ?case by (rule soundI) (use reaches_refl in \<open>auto split: if_splits\<close>)
next
  case Eol
  show ?case by (rule soundI) (use reaches_refl in \<open>auto split: if_splits\<close>)
next
  case EolM
  show ?case by (rule soundI) (use reaches_refl in \<open>auto split: if_splits list.splits\<close>)
next
  case WordB
  show ?case by (rule soundI) (use reaches_refl in \<open>auto simp: Let_def split: if_splits\<close>)
qed

lemma match_here_good:
  assumes "match_here r acc p s = Some mt"
  shows "good_match r mt"
proof -
  from assms obtain e where e: "rx_m r Some (MState p s []) = Some e"
    and mt: "mt = RMatch (rev acc) (take (length s - length (rest e)) s) (caps e) (prev e) (rest e)"
    by (auto simp: match_here_def split: option.splits)
  from soundD[OF rx_m_sound e] have r: "reaches (consumes r) (\<lambda>n. captures n r) (MState p s []) e"
    by auto
  have "consumes r \<longrightarrow> whole mt \<noteq> []"
  proof
    assume "consumes r"
    with r have "length (rest e) < length s" by (simp add: reaches_def)
    then show "whole mt \<noteq> []" by (cases s) (simp_all add: mt)
  qed
  moreover have "\<forall>n. captures n r \<longrightarrow> group mt n \<noteq> None"
  proof (intro allI impI)
    fix n assume "captures n r"
    with r have "n \<in> fst ` set (caps e)" by (simp add: reaches_def)
    then show "group mt n \<noteq> None" by (simp add: group_def mt map_of_eq_None_iff)
  qed
  ultimately show ?thesis by (simp add: good_match_def)
qed

lemma exec_from_good:
  "exec_from r acc p s = Some mt \<Longrightarrow> good_match r mt"
proof (induction s arbitrary: acc p)
  case Nil
  then show ?case using match_here_good by simp
next
  case (Cons c cs)
  show ?case
  proof (cases "match_here r acc p (c # cs)")
    case None
    with Cons.prems have "exec_from r (c # acc) (Some c) cs = Some mt" by simp
    then show ?thesis by (rule Cons.IH)
  next
    case (Some m')
    with Cons.prems have "match_here r acc p (c # cs) = Some mt" by simp
    then show ?thesis by (rule match_here_good)
  qed
qed


lemma good_match_pre:
  "good_match r m' \<Longrightarrow> good_match r (RMatch x (whole m') (groups m') y z)"
  by (simp add: good_match_def group_def)

lemma skipped_good:
  "mt \<in> set (skipped c ms) \<Longrightarrow> \<forall>m' \<in> set ms. good_match r m' \<Longrightarrow> good_match r mt"
  by (cases ms) (auto simp: good_match_pre)

lemma match_all_from_unfold:
  assumes "exec_from r [] p s = Some m0"
  shows "match_all_from r p s =
       (if whole m0 \<noteq> [] \<and> length (post m0) < length s
        then m0 # match_all_from r (post_prev m0) (post m0)
        else (case post m0 of
                [] \<Rightarrow> [m0]
              | c # cs \<Rightarrow>
                  if length cs < length s
                  then m0 # skipped c (match_all_from r (Some c) cs)
                  else [m0]))"
  by (subst match_all_from.simps) (simp only: assms option.case)

lemma match_all_from_none:
  assumes "exec_from r [] p s = None"
  shows "match_all_from r p s = []"
  by (subst match_all_from.simps) (simp only: assms option.case)

lemma match_all_from_good:
  "mt \<in> set (match_all_from r p s) \<Longrightarrow> good_match r mt"
proof (induction r p s arbitrary: mt rule: match_all_from.induct)
  case (1 r p s)
  show ?case
  proof (cases "exec_from r [] p s")
    case None
    with "1.prems" show ?thesis by (simp add: match_all_from_none)
  next
    case (Some m0)
    then have g0: "good_match r m0" by (rule exec_from_good)
    define C where "C \<longleftrightarrow> whole m0 \<noteq> [] \<and> length (post m0) < length s"
    have eq: "match_all_from r p s =
       (if C then m0 # match_all_from r (post_prev m0) (post m0)
        else (case post m0 of
                [] \<Rightarrow> [m0]
              | c # cs \<Rightarrow>
                  if length cs < length s
                  then m0 # skipped c (match_all_from r (Some c) cs)
                  else [m0]))"
      unfolding C_def by (rule match_all_from_unfold[OF Some])
    show ?thesis
    proof (cases C)
      case True
      then have c: "whole m0 \<noteq> [] \<and> length (post m0) < length s" unfolding C_def .
      from True eq have "match_all_from r p s = m0 # match_all_from r (post_prev m0) (post m0)"
        by (simp only: if_True)
      with "1.prems" have "mt = m0 \<or> mt \<in> set (match_all_from r (post_prev m0) (post m0))"
        by simp
      then show ?thesis
      proof
        assume "mt = m0" with g0 show ?thesis by simp
      next
        assume "mt \<in> set (match_all_from r (post_prev m0) (post m0))"
        then show ?thesis using "1.IH"(1)[OF Some c] by blast
      qed
    next
      case False
      then have c: "\<not> (whole m0 \<noteq> [] \<and> length (post m0) < length s)" unfolding C_def .
      show ?thesis
      proof (cases "post m0")
        case Nil
        with False eq have "match_all_from r p s = [m0]"
          by (simp only: if_False list.case)
        with "1.prems" g0 show ?thesis by simp
      next
        case (Cons c' cs)
        show ?thesis
        proof (cases "length cs < length s")
          case lt: True
          with False eq Cons have "match_all_from r p s =
              m0 # skipped c' (match_all_from r (Some c') cs)"
            by (simp only: if_False if_True list.case)
          with "1.prems" have
            "mt = m0 \<or> mt \<in> set (skipped c' (match_all_from r (Some c') cs))"
            by simp
          then show ?thesis
          proof
            assume "mt = m0" with g0 show ?thesis by simp
          next
            assume m: "mt \<in> set (skipped c' (match_all_from r (Some c') cs))"
            have "\<forall>m' \<in> set (match_all_from r (Some c') cs). good_match r m'"
              using "1.IH"(2)[OF Some c Cons lt] by blast
            with m show ?thesis by (rule skipped_good)
          qed
        next
          case ge: False
          with False eq Cons have "match_all_from r p s = [m0]"
            by (simp only: if_False list.case)
          with "1.prems" g0 show ?thesis by simp
        qed
      qed
    qed
  qed
qed

lemma match_all_good: "mt \<in> set (match_all r s) \<Longrightarrow> good_match r mt"
  unfolding match_all_def by (rule match_all_from_good)

lemma exec_loop_ends:
  assumes "consumes r"
  shows "exec_loop r s = Some (match_all r s)"
proof -
  have "\<forall>mt \<in> set (match_all r s). whole mt \<noteq> []"
    using match_all_good assms by (auto simp: good_match_def)
  then show ?thesis by (simp add: exec_loop_def Let_def)
qed

lemma must_group:
  "good_match r mt \<Longrightarrow> captures n r \<Longrightarrow> \<exists>g. must (group mt n) = Inr g"
  by (cases "group mt n") (auto simp: good_match_def must_def)

lemma seqs_Nil: "seqs [] = Eps"
  by (simp add: seqs_def)

lemma seqs_Cons: "seqs (r # rs) = Seq r (seqs rs)"
  by (simp add: seqs_def)










subsection \<open>Totality of the parsers\<close>








subsection \<open>The defaults of the evaluation\<close>

lemma only_overall_fenced: \<open>fenced_json only_overall = Some ''{"scores":{"overall":7}}''\<close>
  by code_simp

lemma only_overall_parsed:
  \<open>JSON_parse (cleanJson ''{"scores":{"overall":7}}'') =
     Inr (JObj [(''scores'', JObj [(''overall'', JNum 7)])])\<close>
  by code_simp

lemma parseEvaluationResponse_json:
  assumes "fenced_json s = Some g" and "JSON_parse (cleanJson g) = Inr (JObj kvs)"
  shows "parseEvaluationResponse s =
           Some (Inr (validateEvaluationResult (JObj (obj_set kvs ''raw'' (JStr s)))))"
  using assms
  by (simp add: parseEvaluationResponse_def parseEvaluationResponse_body_def set_raw_def try_catch_def)

lemma only_overall_validated:
  "validateEvaluationResult
     (JObj (obj_set [(''scores'', JObj [(''overall'', JNum 7)])] ''raw'' (JStr s))) =
   \<lparr>scores = \<lparr>overall = JNum 7, criteria = JObj []\<rparr>,
    feedback = \<lparr>strengths = [], improvements = [], misconceptions = [], summary = []\<rparr>,
    missingElements = [], explanation = [], raw = Some (JStr s)\<rparr>"
  by (simp add: validateEvaluationResult_def opt_prop_def array_or_empty_def string_or_empty_def)

lemma array_or_empty_default: "(\<forall>xs. v \<noteq> Some (JArr xs)) \<Longrightarrow> array_or_empty v = []"
  by (cases v) (auto simp: array_or_empty_def split: json.splits)

lemma string_or_empty_default: "(\<forall>x. v \<noteq> Some (JStr x)) \<Longrightarrow> string_or_empty v = []"
  by (cases v) (auto simp: string_or_empty_def split: json.splits)

text \<open>C6. When the fenced text is the object with nothing but an overall score of 7,
  \<^verbatim>\<open>parseEvaluationResponse\<close> returns that score, no criteria, empty sequences for the
  strengths, improvements, misconceptions and missing elements, empty strings for the
  summary and the explanation, and the response itself as \<^verbatim>\<open>raw\<close>. In general the
  validator is applied to every payload that parsed, and it returns an empty sequence for
  every array field that is not an array, an empty string for every string field that is
  not a string, 0 for an overall score that is not a number and no criteria when there
  are none.\<close>

theorem evaluation_defaults:
  \<open>(fenced_json s = Some ''{"scores":{"overall":7}}'' \<longrightarrow>
      parseEvaluationResponse s =
        Some (Inr \<lparr>scores = \<lparr>overall = JNum 7, criteria = JObj []\<rparr>,
                   feedback = \<lparr>strengths = [], improvements = [], misconceptions = [],
                               summary = []\<rparr>,
                   missingElements = [], explanation = [], raw = Some (JStr s)\<rparr>))
   \<and> (fenced_json s = Some g \<and> JSON_parse (cleanJson g) = Inr (JObj kvs) \<longrightarrow>
        parseEvaluationResponse s =
          Some (Inr (validateEvaluationResult (JObj (obj_set kvs ''raw'' (JStr s))))))
   \<and> ((\<forall>xs. opt_prop (get_prop result ''feedback'') ''strengths'' \<noteq> Some (JArr xs)) \<longrightarrow>
        strengths (feedback (validateEvaluationResult result)) = [])
   \<and> ((\<forall>xs. opt_prop (get_prop result ''feedback'') ''improvements'' \<noteq> Some (JArr xs)) \<longrightarrow>
        improvements (feedback (validateEvaluationResult result)) = [])
   \<and> ((\<forall>xs. opt_prop (get_prop result ''feedback'') ''misconceptions'' \<noteq> Some (JArr xs)) \<longrightarrow>
        misconceptions (feedback (validateEvaluationResult result)) = [])
   \<and> ((\<forall>xs. get_prop result ''missingElements'' \<noteq> Some (JArr xs)) \<longrightarrow>
        missingElements (validateEvaluationResult result) = [])
   \<and> ((\<forall>x. opt_prop (get_prop result ''feedback'') ''summary'' \<noteq> Some (JStr x)) \<longrightarrow>
        summary (feedback (validateEvaluationResult result)) = [])
   \<and> ((\<forall>x. get_prop result ''explanation'' \<noteq> Some (JStr x)) \<longrightarrow>
        explanation (validateEvaluationResult result) = [])
   \<and> ((\<forall>n. opt_prop (get_prop result ''scores'') ''overall'' \<noteq> Some (JNum n)) \<longrightarrow>
        overall (scores (validateEvaluationResult result)) = JNum 0)
   \<and> (opt_prop (get_prop result ''scores'') ''criteria'' = None \<longrightarrow>
        criteria (scores (validateEvaluationResult result)) = JObj [])\<close>
proof (intro conjI impI)
  assume "fenced_json s = Some ''{\"scores\":{\"overall\":7}}''"
  from parseEvaluationResponse_json[OF this only_overall_parsed]
  show "parseEvaluationResponse s =
        Some (Inr \<lparr>scores = \<lparr>overall = JNum 7, criteria = JObj []\<rparr>,
                   feedback = \<lparr>strengths = [], improvements = [], misconceptions = [],
                               summary = []\<rparr>,
                   missingElements = [], explanation = [], raw = Some (JStr s)\<rparr>)"
    by (simp only: only_overall_validated)
next
  assume "fenced_json s = Some g \<and> JSON_parse (cleanJson g) = Inr (JObj kvs)"
  then show "parseEvaluationResponse s =
          Some (Inr (validateEvaluationResult (JObj (obj_set kvs ''raw'' (JStr s)))))"
    using parseEvaluationResponse_json by blast
next
  assume "\<forall>xs. opt_prop (get_prop result ''feedback'') ''strengths'' \<noteq> Some (JArr xs)"
  then show "strengths (feedback (validateEvaluationResult result)) = []"
    by (simp add: validateEvaluationResult_def array_or_empty_default)
next
  assume "\<forall>xs. opt_prop (get_prop result ''feedback'') ''improvements'' \<noteq> Some (JArr xs)"
  then show "improvements (feedback (validateEvaluationResult result)) = []"
    by (simp add: validateEvaluationResult_def array_or_empty_default)
next
  assume "\<forall>xs. opt_prop (get_prop result ''feedback'') ''misconceptions'' \<noteq> Some (JArr xs)"
  then show "misconceptions (feedback (validateEvaluationResult result)) = []"
    by (simp add: validateEvaluationResult_def array_or_empty_default)
next
  assume "\<forall>xs. get_prop result ''missingElements'' \<noteq> Some (JArr xs)"
  then show "missingElements (validateEvaluationResult result) = []"
    by (simp add: validateEvaluationResult_def array_or_empty_default)
next
  assume "\<forall>x. opt_prop (get_prop result ''feedback'') ''summary'' \<noteq> Some (JStr x)"
  then show "summary (feedback (validateEvaluationResult result)) = []"
    by (simp add: validateEvaluationResult_def string_or_empty_default)
next
  assume "\<forall>x. get_prop result ''explanation'' \<noteq> Some (JStr x)"
  then show "explanation (validateEvaluationResult result) = []"
    by (simp add: validateEvaluationResult_def string_or_empty_default)
next
  assume a: "\<forall>n. opt_prop (get_prop result ''scores'') ''overall'' \<noteq> Some (JNum n)"
  show "overall (scores (validateEvaluationResult result)) = JNum 0"
  proof (cases "opt_prop (get_prop result ''scores'') ''overall''")
    case None
    then show ?thesis by (simp add: validateEvaluationResult_def)
  next
    case (Some v)
    with a show ?thesis by (cases v) (simp_all add: validateEvaluationResult_def)
  qed
next
  assume "opt_prop (get_prop result ''scores'') ''criteria'' = None"
  then show "criteria (scores (validateEvaluationResult result)) = JObj []"
    by (simp add: validateEvaluationResult_def)
qed

text \<open>The response \<open>only_overall\<close>, and the empty object.\<close>

theorem evaluation_defaults_witness:
  \<open>fenced_json only_overall = Some ''{"scores":{"overall":7}}''
   \<and> JSON_parse (cleanJson ''{"scores":{"overall":7}}'') =
       Inr (JObj [(''scores'', JObj [(''overall'', JNum 7)])])
   \<and> parseEvaluationResponse only_overall =
        Some (Inr \<lparr>scores = \<lparr>overall = JNum 7, criteria = JObj []\<rparr>,
                   feedback = \<lparr>strengths = [], improvements = [], misconceptions = [],
                               summary = []\<rparr>,
                   missingElements = [], explanation = [], raw = Some (JStr only_overall)\<rparr>)
   \<and> strengths (feedback (validateEvaluationResult (JObj []))) = []
   \<and> improvements (feedback (validateEvaluationResult (JObj []))) = []
   \<and> misconceptions (feedback (validateEvaluationResult (JObj []))) = []
   \<and> missingElements (validateEvaluationResult (JObj [])) = []
   \<and> summary (feedback (validateEvaluationResult (JObj []))) = []
   \<and> explanation (validateEvaluationResult (JObj [])) = []
   \<and> overall (scores (validateEvaluationResult (JObj []))) = JNum 0
   \<and> criteria (scores (validateEvaluationResult (JObj []))) = JObj []\<close>
  using evaluation_defaults [of only_overall "''{\"scores\":{\"overall\":7}}''"
      "[(''scores'', JObj [(''overall'', JNum 7)])]" "JObj []"]
    only_overall_fenced only_overall_parsed
  by (simp add: opt_prop_def)

subsection \<open>The preprocessor under its budget\<close>

lemma consumes_seqs: "consumes (seqs rs) = (\<exists>r \<in> set rs. consumes r)"
  by (induction rs) (simp_all add: seqs_Nil seqs_Cons)

lemma captures_seqs: "captures n (seqs rs) = (\<exists>r \<in> set rs. captures n r)"
  by (induction rs) (simp_all add: seqs_Nil seqs_Cons)

lemma definition_rx_good:
  "consumes (definition_rx ws')" "captures 1 (definition_rx ws')" "captures 2 (definition_rx ws')"
  "captures (Suc 0) (definition_rx ws')"
  by (simp_all add: definition_rx_def consumes_seqs captures_seqs term_rx_def letter_def cls_def)

lemma add_term_returns:
  assumes "good_match r mt" and "captures 1 r" and "captures 2 r"
  shows "\<exists>x. add_term acc mt = Inr x"
proof -
  from must_group[OF assms(1,2)] obtain g1 where g1: "must (group mt 1) = Inr g1" by blast
  from must_group[OF assms(1,3)] obtain g2 where g2: "must (group mt 2) = Inr g2" by blast
  show ?thesis
    unfolding add_term_def Let_def g1 g2 bind_e_Inr by simp
qed

lemma add_terms_returns:
  assumes "captures 1 r" and "captures 2 r"
  shows "\<forall>mt \<in> set ms. good_match r mt \<Longrightarrow> \<exists>x. add_terms acc ms = Inr x"
proof (induction ms arbitrary: acc)
  case Nil
  then show ?case by simp
next
  case (Cons mt ms)
  then have "good_match r mt" by simp
  from add_term_returns[OF this assms] obtain acc' where "add_term acc mt = Inr acc'"
    by blast
  moreover from Cons have "\<exists>x. add_terms acc' ms = Inr x" by simp
  ultimately show ?case by simp
qed

lemma extractKeyTerms_loop_returns:
  "\<forall>r \<in> set ps. consumes r \<and> captures 1 r \<and> captures 2 r \<Longrightarrow>
   \<exists>terms. extractKeyTerms_loop ps content acc = Some (Inr terms)"
proof (induction ps arbitrary: acc)
  case Nil
  then show ?case by simp
next
  case (Cons r ps)
  then have r: "consumes r" "captures 1 r" "captures 2 r" by simp_all
  have loop: "exec_loop r content = Some (match_all r content)"
    using r(1) by (rule exec_loop_ends)
  have "\<forall>mt \<in> set (match_all r content). good_match r mt"
    using match_all_good by blast
  from add_terms_returns[OF r(2,3) this] obtain acc' where
    "add_terms acc (match_all r content) = Inr acc'" by blast
  moreover from Cons have "\<exists>terms. extractKeyTerms_loop ps content acc' = Some (Inr terms)"
    by simp
  ultimately show ?case by (simp add: loop)
qed

lemma extractKeyTerms_returns: "\<exists>terms. extractKeyTerms content = Some (Inr terms)"
  unfolding extractKeyTerms_def
  by (rule extractKeyTerms_loop_returns) (simp add: termDefinitionPatterns_def definition_rx_good)

subsection \<open>Replacements do not lengthen the text\<close>

lemma match_here_parts:
  assumes "match_here r acc p s = Some mt"
  shows "pre mt = rev acc \<and> s = whole mt @ post mt"
proof -
  from assms obtain e where e: "rx_m r Some (MState p s []) = Some e"
    and mt: "mt = RMatch (rev acc) (take (length s - length (rest e)) s) (caps e) (prev e) (rest e)"
    by (auto simp: match_here_def split: option.splits)
  from soundD[OF rx_m_sound e] have "reaches (consumes r) (\<lambda>n. captures n r) (MState p s []) e"
    by auto
  then obtain u where "s = u @ rest e" by (auto simp: reaches_def)
  then show ?thesis by (simp add: mt)
qed

lemma exec_from_parts:
  "exec_from r acc p s = Some mt \<Longrightarrow> rev acc @ s = pre mt @ whole mt @ post mt"
proof (induction s arbitrary: acc p)
  case Nil
  then show ?case using match_here_parts[of r acc p "[]" mt] by simp
next
  case (Cons c cs)
  show ?case
  proof (cases "match_here r acc p (c # cs)")
    case None
    with Cons.prems have "exec_from r (c # acc) (Some c) cs = Some mt" by simp
    from Cons.IH[OF this] show ?thesis by simp
  next
    case (Some m')
    with Cons.prems have "match_here r acc p (c # cs) = Some mt" by simp
    from match_here_parts[OF this] show ?thesis by simp
  qed
qed

lemma replace_matches_input:
  "ms \<noteq> [] \<Longrightarrow> replace_matches f ms s = replace_matches f ms s'"
  by (induction f ms s rule: replace_matches.induct) simp_all

lemma replace_matches_Cons:
  "replace_matches f (mt # ms) s = pre mt @ f mt @ replace_matches f ms (post mt)"
proof (cases ms)
  case Nil
  then show ?thesis by simp
next
  case (Cons m' ms')
  have "replace_matches f (m' # ms') s = replace_matches f (m' # ms') (post mt)"
    by (rule replace_matches_input) simp
  then show ?thesis by (simp add: Cons)
qed

lemma replace_matches_length:
  "consumes r \<Longrightarrow> length rep \<le> 1 \<Longrightarrow>
   length (replace_matches (\<lambda>mt. rep) (match_all_from r p s) s) \<le> length s"
proof (induction r p s rule: match_all_from.induct)
  case (1 r p s)
  note cons = \<open>consumes r\<close> and rep = \<open>length rep \<le> 1\<close>
  show ?case
  proof (cases "exec_from r [] p s")
    case None
    then show ?thesis by (simp add: match_all_from_none)
  next
    case (Some m0)
    then have "good_match r m0" by (rule exec_from_good)
    with cons have w: "whole m0 \<noteq> []" by (simp add: good_match_def)
    from exec_from_parts[OF Some] have parts: "s = pre m0 @ whole m0 @ post m0" by simp
    then have "length s = length (pre m0) + length (whole m0) + length (post m0)"
      by (metis length_append add.assoc)
    with w have len: "length (pre m0) + 1 + length (post m0) \<le> length s"
      and lt: "length (post m0) < length s"
      by (cases "whole m0"; simp)+
    from w lt have c: "whole m0 \<noteq> [] \<and> length (post m0) < length s" by simp
    have eq: "match_all_from r p s = m0 # match_all_from r (post_prev m0) (post m0)"
      unfolding match_all_from_unfold[OF Some] using c by (rule if_P)
    have "length (replace_matches (\<lambda>mt. rep) (match_all_from r (post_prev m0) (post m0)) (post m0))
            \<le> length (post m0)"
      using "1.IH"(1)[OF Some c cons rep] .
    then show ?thesis
      using len rep by (simp add: eq replace_matches_Cons)
  qed
qed

lemma replace_all_length:
  "consumes r \<Longrightarrow> length rep \<le> 1 \<Longrightarrow> length (replace_all r (\<lambda>mt. rep) s) \<le> length s"
  unfolding replace_all_def match_all_def by (rule replace_matches_length)

lemma trim_length: "length (trim s) \<le> length s"
proof -
  have "length (trim s) \<le> length (dropWhile is_ws s)"
    unfolding trim_def by (metis length_rev length_dropWhile_le)
  also have "\<dots> \<le> length s" by (rule length_dropWhile_le)
  finally show ?thesis .
qed

lemma clean_rx_consumes:
  "consumes spaces_rx" "consumes (element_rx name)" "consumes html_comment_rx" "consumes tag_rx"
  by (simp_all add: spaces_rx_def element_rx_def html_comment_rx_def tag_rx_def seqs_Cons
        Plus_def ws_def cls_def lit_def lit_i_def ch_def ch_i_def Let_def)

lemma cleanContent_length: "length (cleanContent content) \<le> length content"
proof (cases "content = []")
  case True
  then show ?thesis by (simp add: cleanContent_def)
next
  case False
  define c1 where "c1 = replace_all spaces_rx (\<lambda>mt. '' '') content"
  define c2 where "c2 = replace_all (element_rx ''script'') (\<lambda>mt. []) c1"
  define c3 where "c3 = replace_all (element_rx ''style'') (\<lambda>mt. []) c2"
  define c4 where "c4 = replace_all html_comment_rx (\<lambda>mt. []) c3"
  define c5 where "c5 = replace_all tag_rx (\<lambda>mt. []) c4"
  define c6 where "c6 = replace_all spaces_rx (\<lambda>mt. '' '') c5"
  have eq: "cleanContent content = trim c6"
    using False by (simp add: cleanContent_def Let_def c1_def c2_def c3_def c4_def c5_def c6_def)
  have "length (trim c6) \<le> length c6" by (rule trim_length)
  also have "\<dots> \<le> length c5"
    unfolding c6_def by (rule replace_all_length) (simp_all add: clean_rx_consumes)
  also have "\<dots> \<le> length c4"
    unfolding c5_def by (rule replace_all_length) (simp_all add: clean_rx_consumes)
  also have "\<dots> \<le> length c3"
    unfolding c4_def by (rule replace_all_length) (simp_all add: clean_rx_consumes)
  also have "\<dots> \<le> length c2"
    unfolding c3_def by (rule replace_all_length) (simp_all add: clean_rx_consumes)
  also have "\<dots> \<le> length c1"
    unfolding c2_def by (rule replace_all_length) (simp_all add: clean_rx_consumes)
  also have "\<dots> \<le> length content"
    unfolding c1_def by (rule replace_all_length) (simp_all add: clean_rx_consumes)
  finally show ?thesis by (simp add: eq)
qed

lemma estimateTokenCount_mono:
  assumes "length s \<le> length t"
  shows "estimateTokenCount s \<le> estimateTokenCount t"
proof (cases "s = []")
  case True
  then show ?thesis by (simp add: estimateTokenCount_def TOKENS_PER_CHAR_def Let_def)
next
  case False
  with assms have t: "t \<noteq> []" by auto
  have "real (length s) * TOKENS_PER_CHAR \<le> real (length t) * TOKENS_PER_CHAR"
    using assms by (simp add: TOKENS_PER_CHAR_def)
  then have "\<lceil>real (length s) * TOKENS_PER_CHAR\<rceil> \<le> \<lceil>real (length t) * TOKENS_PER_CHAR\<rceil>"
    by (rule ceiling_mono)
  then show ?thesis using False t by (simp add: estimateTokenCount_def Let_def)
qed

lemma cleanContent_estimate:
  "estimateTokenCount (cleanContent content) \<le> estimateTokenCount content"
  by (rule estimateTokenCount_mono) (rule cleanContent_length)

text \<open>C8, as the code has it. Cleaning never makes the text longer, so its estimate never
  grows. The preprocessor returns the key terms section followed by the cleaned text, with
  nothing else inserted, whenever the estimate of the cleaned text is within \<^verbatim>\<open>maxTokens\<close>
  less the estimate of the key terms section (the extraction of the key terms always
  returns); for \<^verbatim>\<open>maxTokens = estimate(text) + 100\<close> that is the case as soon as the key
  terms section is estimated at 100 tokens or fewer. With \<^verbatim>\<open>extractKeyTerms: false\<close> it
  returns the cleaned text whenever its estimate is within \<^verbatim>\<open>maxTokens\<close>, and so always
  for \<^verbatim>\<open>maxTokens = estimate(text) + 100\<close>.\<close>

theorem preprocess_under_budget:
  "(\<exists>terms. extractKeyTerms (cleanContent content) = Some (Inr terms)
      \<and> (real_of_int (estimateTokenCount (cleanContent content))
            \<le> n - real_of_int (estimateTokenCount (keyTermsSection_of terms)) \<longrightarrow>
          preprocessContent content (options_with n None) =
            Some (Inr (keyTermsSection_of terms @ cleanContent content)))
      \<and> (estimateTokenCount (keyTermsSection_of terms) \<le> 100 \<longrightarrow>
          preprocessContent content
            (options_with (real_of_int (estimateTokenCount content) + 100) None) =
            Some (Inr (keyTermsSection_of terms @ cleanContent content))))
   \<and> (real_of_int (estimateTokenCount (cleanContent content)) \<le> n \<longrightarrow>
        preprocessContent content (options_with n (Some False)) = Some (Inr (cleanContent content)))
   \<and> preprocessContent content
        (options_with (real_of_int (estimateTokenCount content) + 100) (Some False))
      = Some (Inr (cleanContent content))
   \<and> length (cleanContent content) \<le> length content"
proof (intro conjI impI)
  obtain terms where t: "extractKeyTerms (cleanContent content) = Some (Inr terms)"
    using extractKeyTerms_returns by blast
  have a: "real_of_int (estimateTokenCount (cleanContent content))
            \<le> m - real_of_int (estimateTokenCount (keyTermsSection_of terms)) \<longrightarrow>
          preprocessContent content (options_with m None) =
            Some (Inr (keyTermsSection_of terms @ cleanContent content))" for m
    by (simp add: preprocessContent_def options_with_def opt_default_def t Let_def)
  have b: "estimateTokenCount (keyTermsSection_of terms) \<le> 100 \<longrightarrow>
          preprocessContent content
            (options_with (real_of_int (estimateTokenCount content) + 100) None) =
            Some (Inr (keyTermsSection_of terms @ cleanContent content))"
  proof
    assume k: "estimateTokenCount (keyTermsSection_of terms) \<le> 100"
    have "real_of_int (estimateTokenCount (cleanContent content))
            \<le> real_of_int (estimateTokenCount content) + 100
               - real_of_int (estimateTokenCount (keyTermsSection_of terms))"
      using cleanContent_estimate[of content] k by linarith
    with a show "preprocessContent content
            (options_with (real_of_int (estimateTokenCount content) + 100) None) =
            Some (Inr (keyTermsSection_of terms @ cleanContent content))"
      by blast
  qed
  from t a b show "\<exists>terms. extractKeyTerms (cleanContent content) = Some (Inr terms)
      \<and> (real_of_int (estimateTokenCount (cleanContent content))
            \<le> n - real_of_int (estimateTokenCount (keyTermsSection_of terms)) \<longrightarrow>
          preprocessContent content (options_with n None) =
            Some (Inr (keyTermsSection_of terms @ cleanContent content)))
      \<and> (estimateTokenCount (keyTermsSection_of terms) \<le> 100 \<longrightarrow>
          preprocessContent content
            (options_with (real_of_int (estimateTokenCount content) + 100) None) =
            Some (Inr (keyTermsSection_of terms @ cleanContent content)))"
    by blast
next
  assume "real_of_int (estimateTokenCount (cleanContent content)) \<le> n"
  then show "preprocessContent content (options_with n (Some False)) = Some (Inr (cleanContent content))"
    by (simp add: preprocessContent_def options_with_def opt_default_def Let_def estimateTokenCount_def)
next
  have "real_of_int (estimateTokenCount (cleanContent content))
          \<le> real_of_int (estimateTokenCount content) + 100"
    using cleanContent_estimate[of content] by linarith
  then show "preprocessContent content
          (options_with (real_of_int (estimateTokenCount content) + 100) (Some False))
        = Some (Inr (cleanContent content))"
    by (simp add: preprocessContent_def options_with_def opt_default_def Let_def
          estimateTokenCount_def[of "[]"])
next
  show "length (cleanContent content) \<le> length content" by (rule cleanContent_length)
qed

lemma clean_example: "cleanContent ''a b'' = ''a b''"
  by code_simp

lemma clean_example_terms: "extractKeyTerms ''a b'' = Some (Inr [])"
  by code_simp

lemma unclean_example: "cleanContent ''a  b'' = ''a b''"
  by code_simp

text \<open>The text \<^verbatim>\<open>a b\<close>, which is clean and has no key terms.\<close>

theorem preprocess_under_budget_witness:
  "cleanContent ''a b'' = ''a b''
   \<and> extractKeyTerms (cleanContent ''a b'') = Some (Inr [])
   \<and> real_of_int (estimateTokenCount (cleanContent ''a b''))
        \<le> 101 - real_of_int (estimateTokenCount (keyTermsSection_of []))
   \<and> estimateTokenCount (keyTermsSection_of []) \<le> 100
   \<and> preprocessContent ''a b'' (options_with 101 None) = Some (Inr ''a b'')
   \<and> preprocessContent ''a b''
        (options_with (real_of_int (estimateTokenCount ''a b'') + 100) None)
       = Some (Inr ''a b'')
   \<and> preprocessContent ''a b'' (options_with 101 (Some False)) = Some (Inr ''a b'')
   \<and> preprocessContent ''a b''
        (options_with (real_of_int (estimateTokenCount ''a b'') + 100) (Some False))
       = Some (Inr ''a b'')"
  using preprocess_under_budget [of "''a b''" 101] clean_example clean_example_terms
  by (auto simp: estimateTokenCount_def keyTermsSection_of_def TOKENS_PER_CHAR_def)

text \<open>C8 as stated fails on a text with two spaces in a row: it is under the
  budget, and what is returned is the cleaned text, with one space.\<close>

theorem preprocess_changes_text_counterexample:
  "preprocessContent ''a  b''
     (options_with (real_of_int (estimateTokenCount ''a  b'') + 100) None) = Some (Inr ''a b'')
   \<and> ''a b'' \<noteq> ''a  b''"
  by (simp add: preprocessContent_def options_with_def opt_default_def Let_def
        unclean_example clean_example_terms estimateTokenCount_def keyTermsSection_of_def
        TOKENS_PER_CHAR_def)

subsection \<open>The two token estimators\<close>

text \<open>C10. \<^verbatim>\<open>estimateTokenCount\<close> of the tokens module (\<^verbatim>\<open>Math.ceil(text.length / 4)\<close>) and
  \<^verbatim>\<open>estimateTokenCount\<close> of the preprocessor (\<^verbatim>\<open>Math.ceil(text.length * 0.25)\<close>) return the
  same value for every string, and both return 0 for the empty string.\<close>

theorem estimators_agree:
  "tokens_estimateTokenCount s = estimateTokenCount s
   \<and> tokens_estimateTokenCount [] = 0 \<and> estimateTokenCount [] = 0"
  by (simp add: tokens_estimateTokenCount_def estimateTokenCount_def TOKENS_PER_CHAR_def)

subsection \<open>Backoff\<close>





end
